theory Spec2Isabelle
  imports Main "HOL-Library.Word"
begin

section \<open>JavaScript values\<close>

text \<open>
  The two plugins (ContainerPlugin, priority 5, and the learning plugin, priority 10) are
  mixed into one application object. Values that travel through events, messages and
  options are JavaScript values. Objects live in a heap and are referred to by address, so
  that two fields holding the same object see each other's changes. Objects are plain:
  their properties are their own and have string keys. Numbers are the integers from
  \<open>-2^53\<close> to \<open>2^53 - 1\<close>, each of which is a JavaScript number and prints in plain
  decimal, plus \<open>NaN\<close>; all other numbers, arrays and functions are outside this value
  model.
\<close>

type_synonym addr = nat

datatype jsval =
    JUndefined
  | JNull
  | JBool bool
  | JNum "54 word"
  | JNaN
  | JStr string
  | JObj addr

type_synonym props = "string \<Rightarrow> jsval option"

type_synonym heap = "props list"

datatype error = TypeError

text \<open>Truthiness, as tested by \<open>if (v)\<close>, \<open>!!v\<close>, \<open>v || w\<close> and \<open>v && w\<close>.\<close>

fun js_truthy :: "jsval \<Rightarrow> bool" where
  "js_truthy JUndefined = False"
| "js_truthy JNull = False"
| "js_truthy (JBool b) = b"
| "js_truthy (JNum n) = (n \<noteq> 0)"
| "js_truthy JNaN = False"
| "js_truthy (JStr s) = (s \<noteq> [])"
| "js_truthy (JObj p) = True"

text \<open>\<open>x || y\<close> where evaluating \<open>y\<close> has no effect.\<close>

definition js_or :: "jsval \<Rightarrow> jsval \<Rightarrow> jsval" where
  "js_or x y = (if js_truthy x then x else y)"

text \<open>The decimal digits of a natural number.\<close>

fun digits :: "nat \<Rightarrow> string" where
  "digits n = (if n < 10 then [char_of (48 + n)] else digits (n div 10) @ [char_of (48 + n mod 10)])"

declare digits.simps [simp del]

text \<open>
  The own enumerable properties of the object at an address (none at an address that
  holds no object) and of a value: those of the object it refers to, the characters of a
  string under their indices, and none for any other primitive.
\<close>

definition props_at :: "heap \<Rightarrow> addr \<Rightarrow> props" where
  "props_at h p = (if p < length h then h ! p else Map.empty)"

fun indexed_chars :: "nat \<Rightarrow> string \<Rightarrow> (string \<times> jsval) list" where
  "indexed_chars i [] = []"
| "indexed_chars i (c # cs) = (digits i, JStr [c]) # indexed_chars (Suc i) cs"

fun props_of :: "heap \<Rightarrow> jsval \<Rightarrow> props" where
  "props_of h (JObj p) = props_at h p"
| "props_of h (JStr s) = map_of (indexed_chars 0 s)"
| "props_of h v = Map.empty"

text \<open>
  The string a value becomes when it is concatenated to a string with \<open>+\<close>. A plain
  object becomes \<open>[object Object]\<close> through the \<open>toString\<close> it inherits; an own property
  named \<open>toString\<close> hides that one and, being no function, leaves the object with
  nothing to convert it: the concatenation throws a \<open>TypeError\<close>.
\<close>

fun js_toString :: "heap \<Rightarrow> jsval \<Rightarrow> error + string" where
  "js_toString h JUndefined = Inr ''undefined''"
| "js_toString h JNull = Inr ''null''"
| "js_toString h (JBool b) = Inr (if b then ''true'' else ''false'')"
| "js_toString h (JNum n) =
     Inr (if sint n < 0 then ''-'' @ digits (nat (- sint n)) else digits (nat (sint n)))"
| "js_toString h JNaN = Inr ''NaN''"
| "js_toString h (JStr s) = Inr s"
| "js_toString h (JObj p) =
     (case props_at h p ''toString'' of
        None \<Rightarrow> Inr ''[object Object]''
      | Some v \<Rightarrow> Inl TypeError)"

text \<open>
  A property read \<open>v.k\<close>: a \<open>TypeError\<close> on \<open>undefined\<close> and \<open>null\<close>, the property or
  \<open>undefined\<close> on an object, and \<open>undefined\<close> on any other primitive (none of the names
  the plugins read, \<open>spec\<close>, \<open>specDictionary\<close>, \<open>size\<close>, \<open>background\<close>, \<open>color\<close>,
  \<open>edge\<close>, \<open>font\<close>, \<open>align\<close>, is a property of a primitive's wrapper).
\<close>

fun get_prop :: "heap \<Rightarrow> jsval \<Rightarrow> string \<Rightarrow> error + jsval" where
  "get_prop h JUndefined k = Inl TypeError"
| "get_prop h JNull k = Inl TypeError"
| "get_prop h (JObj p) k = Inr (case props_at h p k of None \<Rightarrow> JUndefined | Some v \<Rightarrow> v)"
| "get_prop h v k = Inr JUndefined"

section \<open>The application object and its collaborators\<close>

text \<open>
  Calls the plugins make on collaborators whose code is outside these sources (the
  options registry, the Bellhop messenger, the page-visibility watcher, the learning
  dispatcher, the sound player, the application's own \<open>trigger\<close>, \<open>destroy\<close> and the
  \<open>done\<close> callback of preload) are recorded, in order, in a trace.
\<close>

datatype effect =
    OptionsAdd string jsval bool
  | Connect
  | Send string "jsval list"
  | MessengerDestroy
  | PageVisibilityDestroy
  | Trigger string jsval
  | Destroy
  | Done
  | AddMap jsval
  | LearningOn string
  | LearningEndGame jsval
  | StartGame
  | LearningDestroy
  | SetContextMute string bool

text \<open>The handlers \<open>preload\<close> hands to \<open>messenger.on\<close>, by the function each one binds.\<close>

datatype inbound_handler =
    OnSoundMuted
  | OnCaptionsMuted
  | OnContextMuted string
  | OnCaptionsStyles
  | OnPause
  | OnSinglePlay
  | OnPlayOptions
  | OnClose

record messenger =
  supported :: bool
  inbound :: "(string \<times> inbound_handler) list"

text \<open>The anonymous listeners the two \<open>setup\<close> functions subscribe on the application.\<close>

datatype handler =
    LearningEventListener
  | AnalyticEventListener
  | LoadedListener
  | ConfigLoadedListener
  | EndGameListener
  | InitListener

record listener =
  l_event :: string
  l_once :: bool
  l_handler :: handler

datatype window_handler = OnWindowUnload

record page_visibility =
  onShow :: "string \<times> jsval"
  onHide :: "string \<times> jsval"

record sound =
  s_muteAll :: bool
  contextExists :: "string \<Rightarrow> bool"

record text_field =
  nodeName :: jsval
  className :: jsval

record captions =
  c_muteAll :: bool
  textField :: "text_field option"

record learning =
  spec :: jsval

record event =
  data :: jsval

text \<open>
  The application object, with the fields the plugins read and write. The field
  \<open>_pageVisibility\<close> is written \<open>pageVisibility\<close>, the hooks \<open>window.onunload\<close> and
  \<open>window.onbeforeunload\<close> are kept with the application, \<open>muteAll\<close> is \<open>s_muteAll\<close> on
  the sound player and \<open>c_muteAll\<close> on the captions, and \<open>hints\<close> says whether the
  application has hints.
\<close>

record app =
  options :: props
  messenger :: "messenger option"
  listeners :: "listener list"
  singlePlay :: bool
  playOptions :: jsval
  window_onunload :: "window_handler option"
  window_onbeforeunload :: "window_handler option"
  paused :: bool
  enabled :: bool
  autoPause :: bool
  sound :: "sound option"
  captions :: "captions option"
  learning :: "learning option"
  hints :: bool
  pageVisibility :: "page_visibility option"
  heap :: heap
  trace :: "effect list"

text \<open>How a call ends: it returns, or it throws; either way the state it leaves stays.\<close>

datatype completion = Returned | Threw error

definition and_then :: "completion \<times> app \<Rightarrow> (app \<Rightarrow> completion \<times> app) \<Rightarrow> completion \<times> app" where
  "and_then r f = (case r of (Returned, a) \<Rightarrow> f a | (Threw e, a) \<Rightarrow> (Threw e, a))"

definition log :: "effect \<Rightarrow> app \<Rightarrow> app" where
  "log x a = a\<lparr>trace := trace a @ [x]\<rparr>"

text \<open>\<open>this.messenger.send(name, ...)\<close>: a \<open>TypeError\<close> once the messenger is \<open>null\<close>.\<close>

definition messenger_send :: "string \<Rightarrow> jsval list \<Rightarrow> app \<Rightarrow> completion \<times> app" where
  "messenger_send name args a =
     (case messenger a of
        None \<Rightarrow> (Threw TypeError, a)
      | Some m \<Rightarrow> (Returned, log (Send name args) a))"

text \<open>\<open>this.options.<name>\<close>.\<close>

definition option_value :: "app \<Rightarrow> string \<Rightarrow> jsval" where
  "option_value a k = (case options a k of None \<Rightarrow> JUndefined | Some v \<Rightarrow> v)"

text \<open>An object literal: a new object at the next free address.\<close>

definition new_object :: "props \<Rightarrow> app \<Rightarrow> addr \<times> app" where
  "new_object ps a = (length (heap a), a\<lparr>heap := heap a @ [ps]\<rparr>)"

section \<open>The application's event bus\<close>

text \<open>The bodies of the listeners subscribed by \<open>ContainerPlugin.setup\<close>.\<close>

definition learningEvent_listener :: "jsval \<Rightarrow> app \<Rightarrow> completion \<times> app" where
  "learningEvent_listener d a = messenger_send ''learningEvent'' [d] a"

definition analyticEvent_listener :: "jsval \<Rightarrow> app \<Rightarrow> completion \<times> app" where
  "analyticEvent_listener d a = messenger_send ''analyticEvent'' [d] a"

definition loaded_listener :: "app \<Rightarrow> completion \<times> app" where
  "loaded_listener a = messenger_send ''loadDone'' [] a"

text \<open>The bodies of the listeners subscribed by the learning plugin's \<open>setup\<close>.\<close>

definition configLoaded_listener :: "jsval \<Rightarrow> app \<Rightarrow> completion \<times> app" where
  "configLoaded_listener config a =
     (case get_prop (heap a) config ''spec'' of
        Inl e \<Rightarrow> (Threw e, a)
      | Inr sp \<Rightarrow>
          if js_truthy sp then
            (case learning a of
               None \<Rightarrow> (Threw TypeError, a)
             | Some l \<Rightarrow>
                 (case get_prop (heap a) config ''specDictionary'' of
                    Inl e \<Rightarrow> (Threw e, a)
                  | Inr dict \<Rightarrow>
                      (Returned,
                       (log (AddMap (js_or dict JNull)) a)\<lparr>learning := Some (l\<lparr>spec := sp\<rparr>)\<rparr>)))
          else (Returned, a))"

definition endGame_listener :: "jsval \<Rightarrow> app \<Rightarrow> completion \<times> app" where
  "endGame_listener exitType a =
     (case learning a of
        None \<Rightarrow> (Threw TypeError, a)
      | Some l \<Rightarrow> (Returned, log (LearningEndGame exitType) a))"

definition init_listener :: "app \<Rightarrow> completion \<times> app" where
  "init_listener a =
     (case learning a of
        None \<Rightarrow> (Threw TypeError, a)
      | Some l \<Rightarrow> (Returned, log StartGame a))"

fun call_handler :: "handler \<Rightarrow> jsval \<Rightarrow> app \<Rightarrow> completion \<times> app" where
  "call_handler LearningEventListener d a = learningEvent_listener d a"
| "call_handler AnalyticEventListener d a = analyticEvent_listener d a"
| "call_handler LoadedListener d a = loaded_listener a"
| "call_handler ConfigLoadedListener d a = configLoaded_listener d a"
| "call_handler EndGameListener d a = endGame_listener d a"
| "call_handler InitListener d a = init_listener a"

text \<open>
  Modelled from the spec: the application's event bus (\<open>on\<close>, \<open>once\<close>, \<open>trigger\<close>) is not
  part of the sources. The spec describes it as "standard publish/subscribe with ordinary
  and single-shot subscription" in which "handlers for a given event run in subscription
  order". A single-shot listener is unsubscribed when it is called, before its body runs;
  a listener that throws ends the dispatch. The emission itself is recorded in the trace.
\<close>

definition on :: "string \<Rightarrow> handler \<Rightarrow> app \<Rightarrow> app" where
  "on name h a = a\<lparr>listeners := listeners a @ [\<lparr>l_event = name, l_once = False, l_handler = h\<rparr>]\<rparr>"

definition once :: "string \<Rightarrow> handler \<Rightarrow> app \<Rightarrow> app" where
  "once name h a = a\<lparr>listeners := listeners a @ [\<lparr>l_event = name, l_once = True, l_handler = h\<rparr>]\<rparr>"

fun run_listeners :: "listener list \<Rightarrow> jsval \<Rightarrow> app \<Rightarrow> completion \<times> app" where
  "run_listeners [] d a = (Returned, a)"
| "run_listeners (l # ls) d a =
     and_then
       (call_handler (l_handler l) d
          (if l_once l then a\<lparr>listeners := remove1 l (listeners a)\<rparr> else a))
       (run_listeners ls d)"

definition trigger :: "string \<Rightarrow> jsval \<Rightarrow> app \<Rightarrow> completion \<times> app" where
  "trigger name d a =
     run_listeners (filter (\<lambda>l. l_event l = name) (listeners a)) d (log (Trigger name d) a)"

text \<open>
  Modelled from the spec: \<open>Application.destroy\<close> is not part of the sources, and the spec
  says of it only that \<open>endGame\<close> "destroys the application"; the call is recorded.
\<close>

definition destroy :: "app \<Rightarrow> app" where
  "destroy a = log Destroy a"

section \<open>ContainerPlugin\<close>

text \<open>The methods \<open>setup\<close> installs on the application.\<close>

definition endGame :: "jsval \<Rightarrow> app \<Rightarrow> completion \<times> app" where
  "endGame exitType a =
     and_then (trigger ''endGame'' (js_or exitType (JStr ''game_completed'')) a)
       (\<lambda>a. (Returned, destroy a))"

text \<open>\<open>this.endGame()\<close> passes no argument: \<open>exitType\<close> is \<open>undefined\<close>.\<close>

definition singlePlayEnd :: "app \<Rightarrow> completion \<times> app" where
  "singlePlayEnd a = (if singlePlay a then endGame JUndefined a else (Returned, a))"

text \<open>
  \<open>setup\<close>. Its argument is the messenger \<open>new Bellhop()\<close> gives once \<open>connect()\<close> has
  returned; whether it is \<open>supported\<close> is Bellhop's finding, not the plugin's.
\<close>

definition ContainerPlugin_setup :: "messenger \<Rightarrow> app \<Rightarrow> app" where
  "ContainerPlugin_setup bellhop a =
     (let a = log (OptionsAdd ''singlePlay'' (JBool False) True) a;
          a = log (OptionsAdd ''playOptions'' JNull True) a;
          a = a\<lparr>messenger := Some bellhop\<rparr>;
          a = log Connect a;
          a = on ''learningEvent'' LearningEventListener a;
          a = on ''analyticEvent'' AnalyticEventListener a;
          a = once ''loaded'' LoadedListener a;
          a = a\<lparr>singlePlay := False\<rparr>;
          a = a\<lparr>playOptions := JNull\<rparr>
      in a\<lparr>window_onunload := Some OnWindowUnload, window_onbeforeunload := Some OnWindowUnload\<rparr>)"

definition onWindowUnload :: "app \<Rightarrow> completion \<times> app" where
  "onWindowUnload a =
     endGame (JStr ''left_site'') (a\<lparr>window_onunload := None, window_onbeforeunload := None\<rparr>)"

text \<open>The handlers of messages from the container; \<open>e\<close> is the Bellhop event.\<close>

definition onPause :: "event \<Rightarrow> app \<Rightarrow> app" where
  "onPause e a =
     (let a = a\<lparr>paused := js_truthy (data e)\<rparr>
      in a\<lparr>enabled := \<not> paused a\<rparr>)"

definition onSoundMuted :: "event \<Rightarrow> app \<Rightarrow> completion \<times> app" where
  "onSoundMuted e a =
     (case sound a of
        None \<Rightarrow> (Threw TypeError, a)
      | Some s \<Rightarrow> (Returned, a\<lparr>sound := Some (s\<lparr>s_muteAll := js_truthy (data e)\<rparr>)\<rparr>))"

definition onCaptionsMuted :: "event \<Rightarrow> app \<Rightarrow> completion \<times> app" where
  "onCaptionsMuted e a =
     (case captions a of
        None \<Rightarrow> (Threw TypeError, a)
      | Some c \<Rightarrow> (Returned, a\<lparr>captions := Some (c\<lparr>c_muteAll := js_truthy (data e)\<rparr>)\<rparr>))"

definition onContextMuted :: "string \<Rightarrow> event \<Rightarrow> app \<Rightarrow> completion \<times> app" where
  "onContextMuted context e a =
     (case sound a of
        None \<Rightarrow> (Threw TypeError, a)
      | Some s \<Rightarrow> (Returned, log (SetContextMute context (js_truthy (data e))) a))"

text \<open>Sequencing of reads that may throw.\<close>

definition bind_sum :: "error + 'a \<Rightarrow> ('a \<Rightarrow> error + 'b) \<Rightarrow> error + 'b" where
  "bind_sum r f = (case r of Inl e \<Rightarrow> Inl e | Inr v \<Rightarrow> f v)"

text \<open>The class string of \<open>onCaptionsStyles\<close>: the concatenation goes left to right, and
  each field is read and converted when its turn comes.\<close>

definition styles_className :: "heap \<Rightarrow> jsval \<Rightarrow> error + string" where
  "styles_className h styles =
     bind_sum (get_prop h styles ''size'') (\<lambda>v_size.
     bind_sum (js_toString h v_size) (\<lambda>s_size.
     bind_sum (get_prop h styles ''background'') (\<lambda>v_background.
     bind_sum (js_toString h v_background) (\<lambda>s_background.
     bind_sum (get_prop h styles ''color'') (\<lambda>v_color.
     bind_sum (js_toString h v_color) (\<lambda>s_color.
     bind_sum (get_prop h styles ''edge'') (\<lambda>v_edge.
     bind_sum (js_toString h v_edge) (\<lambda>s_edge.
     bind_sum (get_prop h styles ''font'') (\<lambda>v_font.
     bind_sum (js_toString h v_font) (\<lambda>s_font.
     bind_sum (get_prop h styles ''align'') (\<lambda>v_align.
     bind_sum (js_toString h v_align) (\<lambda>s_align.
       Inr (''size-'' @ s_size @ '' '' @
            ''bg-'' @ s_background @ '' '' @
            ''color-'' @ s_color @ '' '' @
            ''edge-'' @ s_edge @ '' '' @
            ''font-'' @ s_font @ '' '' @
            ''align-'' @ s_align)))))))))))))"

text \<open>
  \<open>onCaptionsStyles\<close>. \<open>this.captions || {}\<close> and \<open>captions.textField || null\<close> leave no
  text field when either is missing; the class is written only to a text field that has
  a \<open>nodeName\<close> (a DOM element).
\<close>

definition onCaptionsStyles :: "event \<Rightarrow> app \<Rightarrow> completion \<times> app" where
  "onCaptionsStyles e a =
     (let styles = data e in
      case captions a of
        None \<Rightarrow> (Returned, a)
      | Some c \<Rightarrow>
          (case textField c of
             None \<Rightarrow> (Returned, a)
           | Some t \<Rightarrow>
               if js_truthy (nodeName t) then
                 (case styles_className (heap a) styles of
                    Inl err \<Rightarrow> (Threw err, a)
                  | Inr cls \<Rightarrow>
                      (Returned,
                       a\<lparr>captions := Some (c\<lparr>textField := Some (t\<lparr>className := JStr cls\<rparr>)\<rparr>)\<rparr>))
               else (Returned, a)))"

text \<open>
  Modelled from the spec: \<open>Object.merge\<close> is not part of the sources. The spec describes
  the handler as a "shallow-merge [of] message data into existing playOptions (added keys
  overwrite, existing untouched keys preserved)": the target object is updated where it
  is, each own property of the source is stored under its key, and no other property
  changes. The spec speaks of an existing object only; for a target that is no object in
  the heap the state is left as it is.
\<close>

definition Object_merge :: "jsval \<Rightarrow> props \<Rightarrow> app \<Rightarrow> app" where
  "Object_merge target source a =
     (case target of
        JObj p \<Rightarrow>
          if p < length (heap a) then a\<lparr>heap := (heap a)[p := (heap a ! p) ++ source]\<rparr> else a
      | _ \<Rightarrow> a)"

text \<open>\<open>e.data || {}\<close>, as the properties \<open>Object.merge\<close> reads from it: the empty object
  literal never leaves the call.\<close>

definition data_or_empty :: "heap \<Rightarrow> jsval \<Rightarrow> props" where
  "data_or_empty h d = (if js_truthy d then props_of h d else Map.empty)"

definition onPlayOptions :: "event \<Rightarrow> app \<Rightarrow> app" where
  "onPlayOptions e a = Object_merge (playOptions a) (data_or_empty (heap a) (data e)) a"

definition onSinglePlay :: "app \<Rightarrow> app" where
  "onSinglePlay a = a\<lparr>singlePlay := True\<rparr>"

definition onClose :: "app \<Rightarrow> completion \<times> app" where
  "onClose a = endGame (JStr ''closed_container'') a"

fun call_inbound :: "inbound_handler \<Rightarrow> event \<Rightarrow> app \<Rightarrow> completion \<times> app" where
  "call_inbound OnSoundMuted e a = onSoundMuted e a"
| "call_inbound OnCaptionsMuted e a = onCaptionsMuted e a"
| "call_inbound (OnContextMuted context) e a = onContextMuted context e a"
| "call_inbound OnCaptionsStyles e a = onCaptionsStyles e a"
| "call_inbound OnPause e a = (Returned, onPause e a)"
| "call_inbound OnSinglePlay e a = (Returned, onSinglePlay a)"
| "call_inbound OnPlayOptions e a = (Returned, onPlayOptions e a)"
| "call_inbound OnClose e a = onClose a"

text \<open>\<open>preload\<close>: the table given to \<open>messenger.on\<close>, the \<open>features\<close> object, and the body
  of \<open>if (this.messenger.supported)\<close>.\<close>

definition inbound_table :: "(string \<times> inbound_handler) list" where
  "inbound_table =
     [(''soundMuted'', OnSoundMuted),
      (''captionsMuted'', OnCaptionsMuted),
      (''musicMuted'', OnContextMuted ''music''),
      (''voMuted'', OnContextMuted ''vo''),
      (''sfxMuted'', OnContextMuted ''sfx''),
      (''captionsStyles'', OnCaptionsStyles),
      (''pause'', OnPause),
      (''singlePlay'', OnSinglePlay),
      (''playOptions'', OnPlayOptions),
      (''close'', OnClose)]"

definition sound_context :: "app \<Rightarrow> string \<Rightarrow> bool" where
  "sound_context a c = (case sound a of None \<Rightarrow> False | Some s \<Rightarrow> contextExists s c)"

definition features :: "app \<Rightarrow> props" where
  "features a =
     [''learning'' \<mapsto> JBool (learning a \<noteq> None),
      ''sound'' \<mapsto> JBool (sound a \<noteq> None),
      ''hints'' \<mapsto> JBool (hints a),
      ''music'' \<mapsto> JBool (sound_context a ''music''),
      ''vo'' \<mapsto> JBool (sound_context a ''vo''),
      ''sfx'' \<mapsto> JBool (sound_context a ''sfx''),
      ''captions'' \<mapsto> JBool (captions a \<noteq> None)]"

definition preload_supported :: "messenger \<Rightarrow> app \<Rightarrow> app" where
  "preload_supported m a =
     (let a = a\<lparr>messenger := Some (m\<lparr>inbound := inbound m @ inbound_table\<rparr>)\<rparr>;
          (p, a) = new_object (features a) a;
          a = log (Send ''features'' [JObj p]) a;
          a = a\<lparr>autoPause := False\<rparr>
      in a\<lparr>pageVisibility :=
             Some \<lparr>onShow = (''focus'', JBool True), onHide = (''focus'', JBool False)\<rparr>\<rparr>)"

definition ContainerPlugin_preload :: "app \<Rightarrow> completion \<times> app" where
  "ContainerPlugin_preload a =
     (let a = a\<lparr>singlePlay := js_truthy (option_value a ''singlePlay'')\<rparr>;
          a = (if js_truthy (option_value a ''playOptions'')
               then a\<lparr>playOptions := option_value a ''playOptions''\<rparr>
               else (let (p, a) = new_object Map.empty a in a\<lparr>playOptions := JObj p\<rparr>))
      in case messenger a of
           None \<Rightarrow> (Threw TypeError, a)
         | Some m \<Rightarrow> (Returned, log Done (if supported m then preload_supported m a else a)))"

definition ContainerPlugin_teardown :: "app \<Rightarrow> completion \<times> app" where
  "ContainerPlugin_teardown a =
     (let a = (case pageVisibility a of
                 None \<Rightarrow> a
               | Some v \<Rightarrow> (log PageVisibilityDestroy a)\<lparr>pageVisibility := None\<rparr>)
      in case messenger a of
           None \<Rightarrow> (Threw TypeError, a)
         | Some m \<Rightarrow>
             (Returned, (log MessengerDestroy (log (Send ''endGame'' []) a))\<lparr>messenger := None\<rparr>))"

text \<open>
  The unload hooks of the window. The browser calls whatever each hook holds when the
  page goes away, one hook after the other; what one callback throws does not keep the
  browser from calling the next.
\<close>

datatype unload_hook = Onunload | Onbeforeunload

definition hook_value :: "unload_hook \<Rightarrow> app \<Rightarrow> window_handler option" where
  "hook_value k a = (case k of Onunload \<Rightarrow> window_onunload a | Onbeforeunload \<Rightarrow> window_onbeforeunload a)"

definition fire_hook :: "unload_hook \<Rightarrow> app \<Rightarrow> completion \<times> app" where
  "fire_hook k a =
     (case hook_value k a of
        None \<Rightarrow> (Returned, a)
      | Some OnWindowUnload \<Rightarrow> onWindowUnload a)"

fun fire_hooks :: "unload_hook list \<Rightarrow> app \<Rightarrow> app" where
  "fire_hooks [] a = a"
| "fire_hooks (k # ks) a = fire_hooks ks (snd (fire_hook k a))"

section \<open>The learning plugin\<close>

text \<open>
  \<open>setup\<close>. Its argument is the dispatcher \<open>new Learning(this, DEBUG)\<close> constructs. The
  listener given to \<open>this.learning.on('learningEvent', ...)\<close> is \<open>bubble_learningEvent\<close>.
\<close>

definition bubble_learningEvent :: "jsval \<Rightarrow> app \<Rightarrow> completion \<times> app" where
  "bubble_learningEvent d a = trigger ''learningEvent'' d a"

definition LearningPlugin_setup :: "learning \<Rightarrow> app \<Rightarrow> app" where
  "LearningPlugin_setup dispatcher a =
     (let a = a\<lparr>learning := Some dispatcher\<rparr>;
          a = once ''configLoaded'' ConfigLoadedListener a;
          a = log (LearningOn ''learningEvent'') a;
          a = once ''endGame'' EndGameListener a
      in once ''init'' InitListener a)"

definition LearningPlugin_teardown :: "app \<Rightarrow> app" where
  "LearningPlugin_teardown a =
     (case learning a of
        None \<Rightarrow> a
      | Some l \<Rightarrow> (log LearningDestroy a)\<lparr>learning := None\<rparr>)"

section \<open>Observations on the trace\<close>

text \<open>What a call added to the trace, the payloads of the emissions of one event in a
  trace, and whether an entry is an emission.\<close>

definition emitted :: "app \<Rightarrow> app \<Rightarrow> effect list" where
  "emitted a a' = drop (length (trace a)) (trace a')"

fun is_trigger :: "effect \<Rightarrow> bool" where
  "is_trigger (Trigger n d) = True"
| "is_trigger x = False"

fun event_payloads :: "string \<Rightarrow> effect list \<Rightarrow> jsval list" where
  "event_payloads name [] = []"
| "event_payloads name (Trigger n d # t) =
     (if n = name then d # event_payloads name t else event_payloads name t)"
| "event_payloads name (x # t) = event_payloads name t"

text \<open>The messages handed to \<open>messenger.send\<close> in a trace, by name.\<close>

fun sent_names :: "effect list \<Rightarrow> string list" where
  "sent_names [] = []"
| "sent_names (Send n args # t) = n # sent_names t"
| "sent_names (x # t) = sent_names t"

text \<open>Whether the collaborator a listener calls is there.\<close>

fun collaborator_present :: "handler \<Rightarrow> app \<Rightarrow> bool" where
  "collaborator_present LearningEventListener a = (messenger a \<noteq> None)"
| "collaborator_present AnalyticEventListener a = (messenger a \<noteq> None)"
| "collaborator_present LoadedListener a = (messenger a \<noteq> None)"
| "collaborator_present ConfigLoadedListener a = (learning a \<noteq> None)"
| "collaborator_present EndGameListener a = (learning a \<noteq> None)"
| "collaborator_present InitListener a = (learning a \<noteq> None)"

text \<open>An application on which no plugin has been set up yet, for the examples.\<close>

definition new_app :: app where
  "new_app =
     \<lparr>options = Map.empty, messenger = None, listeners = [], singlePlay = False,
      playOptions = JUndefined, window_onunload = None, window_onbeforeunload = None,
      paused = False, enabled = True, autoPause = True, sound = None, captions = None,
      learning = None, hints = False, pageVisibility = None, heap = [], trace = []\<rparr>"

text \<open>The same application once both plugins are set up, in a container.\<close>

definition example_app :: app where
  "example_app =
     LearningPlugin_setup \<lparr>spec = JUndefined\<rparr>
       (ContainerPlugin_setup \<lparr>supported = True, inbound = []\<rparr> new_app)"

text \<open>And once \<open>preload\<close> has run on it.\<close>

definition preloaded_app :: app where
  "preloaded_app = snd (ContainerPlugin_preload example_app)"

text \<open>An application whose \<open>playOptions\<close> is the object \<open>{a: 1}\<close>, with the objects
  \<open>{b: 2}\<close> and \<open>{a: 3}\<close> beside it in the heap.\<close>

definition merge_app :: app where
  "merge_app =
     new_app\<lparr>playOptions := JObj 0,
             heap := [[''a'' \<mapsto> JNum 1], [''b'' \<mapsto> JNum 2], [''a'' \<mapsto> JNum 3]]\<rparr>"

text \<open>The caption text field, if there is one, and the value a property read on the
  object at an address gives.\<close>

definition caption_textField :: "app \<Rightarrow> text_field option" where
  "caption_textField a = (case captions a of None \<Rightarrow> None | Some c \<Rightarrow> textField c)"

definition field_value :: "heap \<Rightarrow> addr \<Rightarrow> string \<Rightarrow> jsval" where
  "field_value h q k = (case props_at h q k of None \<Rightarrow> JUndefined | Some v \<Rightarrow> v)"

text \<open>An application with a caption text element, and the styles object of the
  spec's example in the heap.\<close>

definition captions_app :: app where
  "captions_app =
     new_app\<lparr>captions := Some \<lparr>c_muteAll = False,
                                textField = Some \<lparr>nodeName = JStr ''DIV'', className = JStr ''''\<rparr>\<rparr>,
             heap := [[''size'' \<mapsto> JStr ''lg'', ''background'' \<mapsto> JStr ''black'',
                       ''color'' \<mapsto> JStr ''white'', ''edge'' \<mapsto> JStr ''none'',
                       ''font'' \<mapsto> JStr ''arial'', ''align'' \<mapsto> JStr ''left'']]\<rparr>"

text \<open>Whether a value is an object of the heap.\<close>

definition is_object :: "heap \<Rightarrow> jsval \<Rightarrow> bool" where
  "is_object h v = (case v of JObj p \<Rightarrow> p < length h | _ \<Rightarrow> False)"

text \<open>Both plugins set up and preloaded outside a container: the messenger is not
  supported.\<close>

definition standalone_app :: app where
  "standalone_app =
     snd (ContainerPlugin_preload
       (LearningPlugin_setup \<lparr>spec = JUndefined\<rparr>
         (ContainerPlugin_setup \<lparr>supported = False, inbound = []\<rparr> new_app)))"

text \<open>The application in a container, with the option \<open>playOptions\<close> resolved to the
  string \<open>'square'\<close>.\<close>

definition string_option_app :: app where
  "string_option_app = example_app\<lparr>options := [''playOptions'' \<mapsto> JStr ''square'']\<rparr>"

text \<open>An application whose heap holds two configurations, \<open>{spec: 'first',
  specDictionary: {}}\<close> and \<open>{spec: 'second'}\<close>, before and after both plugins are set up.\<close>

definition unconfigured_app :: app where
  "unconfigured_app =
     new_app\<lparr>heap := [[''spec'' \<mapsto> JStr ''first'', ''specDictionary'' \<mapsto> JObj 2],
                      [''spec'' \<mapsto> JStr ''second''],
                      Map.empty]\<rparr>"

definition config_app :: app where
  "config_app =
     LearningPlugin_setup \<lparr>spec = JUndefined\<rparr>
       (ContainerPlugin_setup \<lparr>supported = True, inbound = []\<rparr> unconfigured_app)"

text \<open>The six fields of a styles object, in the order the handler reads them.\<close>

definition style_fields :: "string list" where
  "style_fields = [''size'', ''background'', ''color'', ''edge'', ''font'', ''align'']"

text \<open>The application with a caption text element, and a styles object whose \<open>size\<close> is
  the object \<open>{toString: 1}\<close>.\<close>

definition unprintable_styles_app :: app where
  "unprintable_styles_app =
     captions_app\<lparr>heap := [[''size'' \<mapsto> JObj 1, ''background'' \<mapsto> JStr ''black'',
                              ''color'' \<mapsto> JStr ''white'', ''edge'' \<mapsto> JStr ''none'',
                              ''font'' \<mapsto> JStr ''arial'', ''align'' \<mapsto> JStr ''left''],
                             [''toString'' \<mapsto> JNum 1]]\<rparr>"

text \<open>The application in single play whose learning plugin has been torn down: the
  dispatcher is gone, the listener of \<open>endGame\<close> is still subscribed.\<close>

definition torn_down_app :: app where
  "torn_down_app = LearningPlugin_teardown (onSinglePlay example_app)"

section \<open>What the listeners and \<open>endGame\<close> leave alone\<close>

lemma call_handler_frame:
  assumes "call_handler h d a = (c, a')"
  shows "singlePlay a' = singlePlay a" "window_onunload a' = window_onunload a"
    "window_onbeforeunload a' = window_onbeforeunload a" "listeners a' = listeners a"
    "messenger a' = messenger a" "(learning a' = None) = (learning a = None)"
    "heap a' = heap a" "playOptions a' = playOptions a"
    "pageVisibility a' = pageVisibility a"
    "\<exists>mid. trace a' = trace a @ mid \<and> (\<forall>x\<in>set mid. \<not> is_trigger x \<and> x \<noteq> Destroy)"
  using assms
  by (cases h; auto simp: learningEvent_listener_def analyticEvent_listener_def loaded_listener_def
      configLoaded_listener_def endGame_listener_def init_listener_def messenger_send_def log_def
      split: option.splits sum.splits if_splits)+

lemma get_prop_truthy: "get_prop h d k = Inl e \<Longrightarrow> \<not> js_truthy d"
  by (cases d) auto

lemma call_handler_returns:
  assumes "collaborator_present h a" "js_truthy d"
  shows "fst (call_handler h d a) = Returned"
  using assms
  by (cases h; auto dest: get_prop_truthy simp: learningEvent_listener_def analyticEvent_listener_def loaded_listener_def
      configLoaded_listener_def endGame_listener_def init_listener_def messenger_send_def log_def
      split: option.splits sum.splits if_splits)

lemma collaborator_present_cong:
  "messenger a' = messenger a \<Longrightarrow> (learning a' = None) = (learning a = None) \<Longrightarrow>
   collaborator_present h a' = collaborator_present h a"
  by (cases h) auto

lemma run_listeners_frame:
  "run_listeners ls d a = (c, a') \<Longrightarrow>
     singlePlay a' = singlePlay a \<and> window_onunload a' = window_onunload a \<and>
     window_onbeforeunload a' = window_onbeforeunload a \<and>
     messenger a' = messenger a \<and> (learning a' = None) = (learning a = None) \<and>
     heap a' = heap a \<and> playOptions a' = playOptions a \<and>
     pageVisibility a' = pageVisibility a \<and>
     (\<exists>mid. trace a' = trace a @ mid \<and> (\<forall>x\<in>set mid. \<not> is_trigger x \<and> x \<noteq> Destroy))"
proof (induction ls arbitrary: a)
  case Nil
  then show ?case by simp
next
  case (Cons l ls)
  define a0 where "a0 = (if l_once l then a\<lparr>listeners := remove1 l (listeners a)\<rparr> else a)"
  obtain c1 a1 where h: "call_handler (l_handler l) d a0 = (c1, a1)"
    by (cases "call_handler (l_handler l) d a0") auto
  note f = call_handler_frame[OF h]
  have a0: "singlePlay a0 = singlePlay a" "window_onunload a0 = window_onunload a"
    "window_onbeforeunload a0 = window_onbeforeunload a" "messenger a0 = messenger a"
    "learning a0 = learning a" "heap a0 = heap a" "playOptions a0 = playOptions a"
    "pageVisibility a0 = pageVisibility a" "trace a0 = trace a"
    by (simp_all add: a0_def)
  show ?case
  proof (cases c1)
    case Returned
    with Cons.prems h have r: "run_listeners ls d a1 = (c, a')"
      by (simp add: and_then_def a0_def)
    from Cons.IH[OF r] f a0 show ?thesis
      by (auto simp: ball_Un)
  next
    case (Threw e)
    with Cons.prems h have "a' = a1"
      by (simp add: and_then_def a0_def)
    with f a0 show ?thesis by auto
  qed
qed

lemma run_listeners_returns:
  "js_truthy d \<Longrightarrow> \<forall>l\<in>set ls. collaborator_present (l_handler l) a \<Longrightarrow>
   fst (run_listeners ls d a) = Returned"
proof (induction ls arbitrary: a)
  case Nil
  then show ?case by simp
next
  case (Cons l ls)
  define a0 where "a0 = (if l_once l then a\<lparr>listeners := remove1 l (listeners a)\<rparr> else a)"
  have a0: "messenger a0 = messenger a" "learning a0 = learning a"
    by (simp_all add: a0_def)
  obtain c1 a1 where h: "call_handler (l_handler l) d a0 = (c1, a1)"
    by (cases "call_handler (l_handler l) d a0") auto
  note f = call_handler_frame[OF h]
  have p0: "collaborator_present (l_handler l) a0"
    using Cons.prems(2) a0 collaborator_present_cong[of a0 a] by simp
  have c1: "c1 = Returned"
    using call_handler_returns[OF p0 Cons.prems(1)] h by simp
  have "\<forall>l\<in>set ls. collaborator_present (l_handler l) a1"
    using Cons.prems(2) f(5,6) a0 collaborator_present_cong[of a1 a] by simp
  from Cons.IH[OF Cons.prems(1) this] h c1 show ?case
    by (simp add: and_then_def a0_def)
qed


lemma endGame_trace:
  assumes "endGame x a = (c, a')"
  shows "\<exists>mid. trace a' = trace a @ Trigger ''endGame'' (js_or x (JStr ''game_completed'')) # mid @
              (if c = Returned then [Destroy] else []) \<and>
            (\<forall>y\<in>set mid. \<not> is_trigger y \<and> y \<noteq> Destroy)"
proof -
  define d where "d = js_or x (JStr ''game_completed'')"
  define a0 where "a0 = log (Trigger ''endGame'' d) a"
  define ls where "ls = filter (\<lambda>l. l_event l = ''endGame'') (listeners a)"
  obtain c1 a1 where r: "run_listeners ls d a0 = (c1, a1)"
    by (cases "run_listeners ls d a0") auto
  from run_listeners_frame[OF r] obtain mid where
    mid: "trace a1 = trace a0 @ mid" "\<forall>y\<in>set mid. \<not> is_trigger y \<and> y \<noteq> Destroy"
    by blast
  have t0: "trace a0 = trace a @ [Trigger ''endGame'' d]"
    by (simp add: a0_def log_def)
  have e: "endGame x a = and_then (c1, a1) (\<lambda>a. (Returned, destroy a))"
    using r by (simp add: endGame_def trigger_def d_def a0_def ls_def)
  show ?thesis
  proof (cases c1)
    case Returned
    with e assms have "c = Returned" "a' = destroy a1"
      by (simp_all add: and_then_def)
    with mid t0 show ?thesis
      by (auto simp: destroy_def log_def d_def)
  next
    case (Threw err)
    with e assms have "c = Threw err" "a' = a1"
      by (simp_all add: and_then_def)
    with mid t0 show ?thesis
      by (auto simp: d_def)
  qed
qed

lemma endGame_frame:
  assumes "endGame x a = (c, a')"
  shows "singlePlay a' = singlePlay a" "window_onunload a' = window_onunload a"
    "window_onbeforeunload a' = window_onbeforeunload a" "messenger a' = messenger a"
    "heap a' = heap a" "playOptions a' = playOptions a" "pageVisibility a' = pageVisibility a"
proof -
  define d where "d = js_or x (JStr ''game_completed'')"
  define a0 where "a0 = log (Trigger ''endGame'' d) a"
  define ls where "ls = filter (\<lambda>l. l_event l = ''endGame'') (listeners a)"
  obtain c1 a1 where r: "run_listeners ls d a0 = (c1, a1)"
    by (cases "run_listeners ls d a0") auto
  note f = run_listeners_frame[OF r]
  have e: "endGame x a = and_then (c1, a1) (\<lambda>a. (Returned, destroy a))"
    using r by (simp add: endGame_def trigger_def d_def a0_def ls_def)
  have "a' = a1 \<or> a' = destroy a1"
    using e assms by (cases c1) (simp_all add: and_then_def)
  then show "singlePlay a' = singlePlay a" "window_onunload a' = window_onunload a"
    "window_onbeforeunload a' = window_onbeforeunload a" "messenger a' = messenger a"
    "heap a' = heap a" "playOptions a' = playOptions a" "pageVisibility a' = pageVisibility a"
    using f by (auto simp: a0_def log_def destroy_def)
qed

lemma js_or_truthy: "js_truthy y \<Longrightarrow> js_truthy (js_or x y)"
  by (simp add: js_or_def)

lemma endGame_returns:
  assumes "\<forall>l\<in>set (listeners a). l_event l = ''endGame'' \<longrightarrow> collaborator_present (l_handler l) a"
  shows "fst (endGame x a) = Returned"
proof -
  define d where "d = js_or x (JStr ''game_completed'')"
  define a0 where "a0 = log (Trigger ''endGame'' d) a"
  define ls where "ls = filter (\<lambda>l. l_event l = ''endGame'') (listeners a)"
  have d: "js_truthy d" by (simp add: d_def js_or_truthy)
  have "\<forall>l\<in>set ls. collaborator_present (l_handler l) a0"
    using assms collaborator_present_cong[of a0 a] by (simp add: ls_def a0_def log_def)
  from run_listeners_returns[OF d this]
  show ?thesis
    by (cases "run_listeners ls d a0") (simp add: endGame_def trigger_def d_def a0_def ls_def and_then_def)
qed

lemma emitted_append: "trace a' = trace a @ t \<Longrightarrow> emitted a a' = t"
  by (simp add: emitted_def)

lemma event_payloads_none:
  "\<forall>y\<in>set t. \<not> is_trigger y \<Longrightarrow> event_payloads n t = []"
  by (induction n t rule: event_payloads.induct) auto

lemma event_payloads_append:
  "event_payloads n (s @ t) = event_payloads n s @ event_payloads n t"
  by (induction n s rule: event_payloads.induct) auto

lemma endGame_payloads:
  "event_payloads ''endGame'' (emitted a (snd (endGame x a))) = [js_or x (JStr ''game_completed'')]"
proof -
  obtain c a' where e: "endGame x a = (c, a')" by (cases "endGame x a") auto
  from endGame_trace[OF e] obtain mid where
    t: "trace a' = trace a @ Trigger ''endGame'' (js_or x (JStr ''game_completed'')) # mid @
              (if c = Returned then [Destroy] else [])"
    and m: "\<forall>y\<in>set mid. \<not> is_trigger y \<and> y \<noteq> Destroy"
    by blast
  have "event_payloads ''endGame'' mid = []"
    using m by (simp add: event_payloads_none)
  then show ?thesis
    using e emitted_append[OF t] by (simp add: event_payloads_append)
qed

lemma falsy_values:
  "(\<not> js_truthy x) = (x \<in> {JUndefined, JNull, JBool False, JNum 0, JNaN, JStr ''''})"
  by (cases x) auto

lemma emitted_trace_eq: "trace b = trace a \<Longrightarrow> emitted b a' = emitted a a'"
  by (simp add: emitted_def)

lemma onWindowUnload_effect:
  "window_onunload (snd (onWindowUnload a)) = None \<and>
   window_onbeforeunload (snd (onWindowUnload a)) = None \<and>
   event_payloads ''endGame'' (emitted a (snd (onWindowUnload a))) = [JStr ''left_site'']"
proof -
  define b where "b = a\<lparr>window_onunload := None, window_onbeforeunload := None\<rparr>"
  obtain c a' where e: "endGame (JStr ''left_site'') b = (c, a')"
    by (cases "endGame (JStr ''left_site'') b") auto
  have w: "onWindowUnload a = (c, a')"
    using e by (simp add: onWindowUnload_def b_def)
  have "event_payloads ''endGame'' (emitted b a') = [JStr ''left_site'']"
    using endGame_payloads[of b "JStr ''left_site''"] e by (simp add: js_or_def)
  moreover have "emitted b a' = emitted a a'"
    by (rule emitted_trace_eq) (simp add: b_def)
  ultimately show ?thesis
    using endGame_frame(2,3)[OF e] w by (simp add: b_def)
qed

lemma fire_hooks_cleared:
  "window_onunload a = None \<Longrightarrow> window_onbeforeunload a = None \<Longrightarrow> fire_hooks ks a = a"
  by (induction ks) (auto simp: fire_hook_def hook_value_def split: unload_hook.splits)

lemma preload_playOptions:
  "playOptions (snd (ContainerPlugin_preload a)) =
     (if js_truthy (option_value a ''playOptions'') then option_value a ''playOptions''
      else JObj (length (heap a)))"
  by (simp add: ContainerPlugin_preload_def Let_def option_value_def new_object_def
      preload_supported_def log_def split: option.splits prod.splits)

lemma preload_heap:
  "\<exists>rest. heap (snd (ContainerPlugin_preload a)) =
     (if js_truthy (option_value a ''playOptions'') then heap a else heap a @ [Map.empty]) @ rest"
  by (simp add: ContainerPlugin_preload_def Let_def option_value_def new_object_def
      preload_supported_def log_def split: option.splits prod.splits)

lemma remove1_not_in_prefix: "x \<notin> set xs \<Longrightarrow> remove1 x (xs @ ys) = xs @ remove1 x ys"
  by (simp add: remove1_append)

lemma error_is_TypeError: "(e::error) = TypeError"
  by (cases e) simp

lemma js_toString_throws:
  "(js_toString h v = Inl TypeError) = (\<exists>p. v = JObj p \<and> props_at h p ''toString'' \<noteq> None)"
  by (cases v) (auto split: option.splits)

lemma styles_className_converted:
  assumes "js_toString h (field_value h q ''size'') = Inr s1"
    "js_toString h (field_value h q ''background'') = Inr s2"
    "js_toString h (field_value h q ''color'') = Inr s3"
    "js_toString h (field_value h q ''edge'') = Inr s4"
    "js_toString h (field_value h q ''font'') = Inr s5"
    "js_toString h (field_value h q ''align'') = Inr s6"
  shows "styles_className h (JObj q) =
     Inr (''size-'' @ s1 @ '' bg-'' @ s2 @ '' color-'' @ s3 @ '' edge-'' @ s4 @
          '' font-'' @ s5 @ '' align-'' @ s6)"
  using assms by (simp add: styles_className_def bind_sum_def field_value_def)

lemma styles_className_throws:
  assumes "\<exists>k\<in>set style_fields. js_toString h (field_value h q k) = Inl TypeError"
  shows "styles_className h (JObj q) = Inl TypeError"
proof -
  have "\<exists>e. styles_className h (JObj q) = Inl e"
    using assms
    by (auto simp: styles_className_def bind_sum_def field_value_def style_fields_def
        split: sum.splits)
  then obtain e where "styles_className h (JObj q) = Inl e" ..
  then show ?thesis
    by (simp add: error_is_TypeError[of e])
qed

lemma digits_0: "digits 0 = ''0''"
  by code_simp

lemma digits_1: "digits (Suc 0) = ''1''"
  by code_simp

section \<open>Single play\<close>

text \<open>
  C1, as the code has it. When \<open>singlePlay\<close> is true, \<open>singlePlayEnd()\<close> is \<open>endGame()\<close>
  with no argument: it adds to the trace exactly one emission, that of \<open>endGame\<close> with
  \<open>'game_completed'\<close>, then what the listeners of \<open>endGame\<close> do (no emission, no
  destruction), and, when the call returns, the destruction of the application as the
  last entry. The call returns whenever the collaborator of each \<open>endGame\<close> listener is
  there; a listener that throws ends the call before \<open>destroy()\<close>. When \<open>singlePlay\<close>
  is false the call returns the state it was given. The \<open>singlePlay\<close> message makes
  \<open>singlePlay\<close> true.
\<close>

theorem singlePlayEnd_ends_game_once:
  "(singlePlay a \<longrightarrow>
      singlePlayEnd a = endGame JUndefined a \<and>
      event_payloads ''endGame'' (emitted a (snd (singlePlayEnd a))) = [JStr ''game_completed''] \<and>
      (\<exists>mid. trace (snd (singlePlayEnd a)) =
               trace a @ Trigger ''endGame'' (JStr ''game_completed'') # mid @
                 (if fst (singlePlayEnd a) = Returned then [Destroy] else []) \<and>
             (\<forall>y\<in>set mid. \<not> is_trigger y \<and> y \<noteq> Destroy)) \<and>
      ((\<forall>l\<in>set (listeners a). l_event l = ''endGame'' \<longrightarrow> collaborator_present (l_handler l) a)
         \<longrightarrow> fst (singlePlayEnd a) = Returned)) \<and>
   (\<not> singlePlay a \<longrightarrow> singlePlayEnd a = (Returned, a)) \<and>
   singlePlay (onSinglePlay a)"
proof -
  have "\<exists>mid. trace (snd (endGame JUndefined a)) =
               trace a @ Trigger ''endGame'' (JStr ''game_completed'') # mid @
                 (if fst (endGame JUndefined a) = Returned then [Destroy] else []) \<and>
             (\<forall>y\<in>set mid. \<not> is_trigger y \<and> y \<noteq> Destroy)"
    using endGame_trace[of JUndefined a "fst (endGame JUndefined a)" "snd (endGame JUndefined a)"]
    by (simp add: js_or_def)
  moreover have "event_payloads ''endGame'' (emitted a (snd (endGame JUndefined a))) = [JStr ''game_completed'']"
    using endGame_payloads[of a JUndefined] by (simp add: js_or_def)
  ultimately show ?thesis
    using endGame_returns[of a JUndefined]
    by (simp add: singlePlayEnd_def onSinglePlay_def)
qed

theorem singlePlayEnd_ends_game_once_witness:
  "singlePlayEnd example_app = (Returned, example_app) \<and>
   singlePlay (onSinglePlay example_app) \<and>
   fst (singlePlayEnd (onSinglePlay example_app)) = Returned \<and>
   emitted example_app (snd (singlePlayEnd (onSinglePlay example_app))) =
     [Trigger ''endGame'' (JStr ''game_completed''), LearningEndGame (JStr ''game_completed''), Destroy]"
  using singlePlayEnd_ends_game_once[of example_app]
        singlePlayEnd_ends_game_once[of "onSinglePlay example_app"]
  by (simp add: example_app_def LearningPlugin_setup_def ContainerPlugin_setup_def new_app_def
      on_def once_def log_def Let_def onSinglePlay_def singlePlayEnd_def endGame_def trigger_def
      and_then_def endGame_listener_def destroy_def emitted_def js_or_def)

text \<open>
  C1 as stated, "for every application state ... and then destroys the application",
  fails on the application in single play whose dispatcher is gone: the \<open>endGame\<close>
  listener of the learning plugin throws, and \<open>destroy()\<close> is never reached.
\<close>

theorem singlePlayEnd_listener_throws_counterexample:
  "singlePlay torn_down_app \<and>
   fst (singlePlayEnd torn_down_app) = Threw TypeError \<and>
   emitted torn_down_app (snd (singlePlayEnd torn_down_app)) =
     [Trigger ''endGame'' (JStr ''game_completed'')]"
  by (simp add: torn_down_app_def LearningPlugin_teardown_def example_app_def
      LearningPlugin_setup_def ContainerPlugin_setup_def new_app_def
      on_def once_def log_def Let_def onSinglePlay_def singlePlayEnd_def endGame_def trigger_def
      and_then_def endGame_listener_def destroy_def emitted_def js_or_def)

section \<open>Ending the game\<close>

text \<open>
  C5. Every call of \<open>endGame(exitType)\<close> adds the emission of \<open>endGame\<close> to the trace
  first; \<open>destroy()\<close> comes after it, as the last entry, and nowhere before. The
  teardown of ContainerPlugin, while the messenger is there, disposes the visibility
  watcher first (when there is one), then sends \<open>endGame\<close> to the container, then
  destroys the messenger, and leaves both fields empty. Without a messenger (a second
  teardown) the send throws and nothing is sent or destroyed.
\<close>

theorem endGame_and_teardown_order:
  "(\<exists>mid. trace (snd (endGame x a)) =
            trace a @ Trigger ''endGame'' (js_or x (JStr ''game_completed'')) # mid @
              (if fst (endGame x a) = Returned then [Destroy] else []) \<and>
          (\<forall>y\<in>set mid. y \<noteq> Destroy)) \<and>
   (messenger a \<noteq> None \<longrightarrow>
      fst (ContainerPlugin_teardown a) = Returned \<and>
      trace (snd (ContainerPlugin_teardown a)) =
        trace a @ (if pageVisibility a = None then [] else [PageVisibilityDestroy]) @
          [Send ''endGame'' [], MessengerDestroy] \<and>
      pageVisibility (snd (ContainerPlugin_teardown a)) = None \<and>
      messenger (snd (ContainerPlugin_teardown a)) = None) \<and>
   (messenger a = None \<longrightarrow>
      fst (ContainerPlugin_teardown a) = Threw TypeError \<and>
      trace (snd (ContainerPlugin_teardown a)) =
        trace a @ (if pageVisibility a = None then [] else [PageVisibilityDestroy]))"
proof -
  have "\<exists>mid. trace (snd (endGame x a)) =
            trace a @ Trigger ''endGame'' (js_or x (JStr ''game_completed'')) # mid @
              (if fst (endGame x a) = Returned then [Destroy] else []) \<and>
          (\<forall>y\<in>set mid. y \<noteq> Destroy)"
    using endGame_trace[of x a "fst (endGame x a)" "snd (endGame x a)"] by auto
  moreover have "messenger a \<noteq> None \<longrightarrow>
      fst (ContainerPlugin_teardown a) = Returned \<and>
      trace (snd (ContainerPlugin_teardown a)) =
        trace a @ (if pageVisibility a = None then [] else [PageVisibilityDestroy]) @
          [Send ''endGame'' [], MessengerDestroy] \<and>
      pageVisibility (snd (ContainerPlugin_teardown a)) = None \<and>
      messenger (snd (ContainerPlugin_teardown a)) = None"
    by (cases "pageVisibility a") (auto simp: ContainerPlugin_teardown_def log_def Let_def)
  moreover have "messenger a = None \<longrightarrow>
      fst (ContainerPlugin_teardown a) = Threw TypeError \<and>
      trace (snd (ContainerPlugin_teardown a)) =
        trace a @ (if pageVisibility a = None then [] else [PageVisibilityDestroy])"
    by (cases "pageVisibility a") (auto simp: ContainerPlugin_teardown_def log_def Let_def)
  ultimately show ?thesis by blast
qed

theorem endGame_and_teardown_order_witness:
  "emitted preloaded_app (snd (endGame (JStr ''closed_container'') preloaded_app)) =
     [Trigger ''endGame'' (JStr ''closed_container''), LearningEndGame (JStr ''closed_container''), Destroy] \<and>
   messenger preloaded_app \<noteq> None \<and>
   emitted preloaded_app (snd (ContainerPlugin_teardown preloaded_app)) =
     [PageVisibilityDestroy, Send ''endGame'' [], MessengerDestroy] \<and>
   messenger (snd (ContainerPlugin_teardown preloaded_app)) = None \<and>
   messenger (snd (ContainerPlugin_teardown (snd (ContainerPlugin_teardown preloaded_app)))) = None \<and>
   fst (ContainerPlugin_teardown (snd (ContainerPlugin_teardown preloaded_app))) = Threw TypeError"
  using endGame_and_teardown_order[of "JStr ''closed_container''" preloaded_app]
    endGame_and_teardown_order[of JUndefined "snd (ContainerPlugin_teardown preloaded_app)"]
  by (simp add: preloaded_app_def ContainerPlugin_preload_def example_app_def LearningPlugin_setup_def ContainerPlugin_setup_def new_app_def
      on_def once_def log_def Let_def option_value_def new_object_def preload_supported_def
      ContainerPlugin_teardown_def endGame_def trigger_def
      and_then_def endGame_listener_def destroy_def emitted_def js_or_def)

text \<open>
  C10. The payload of the \<open>endGame\<close> emission is the exit type when that is truthy and
  \<open>'game_completed'\<close> otherwise: for the empty string, \<open>false\<close>, \<open>0\<close>, \<open>null\<close>,
  \<open>undefined\<close> and \<open>NaN\<close> alike, so the payload is never falsy, and \<open>endGame('')\<close> emits
  \<open>'game_completed'\<close>.
\<close>

theorem endGame_default_exit_type:
  "event_payloads ''endGame'' (emitted a (snd (endGame x a))) =
     [if js_truthy x then x else JStr ''game_completed''] \<and>
   (x \<in> {JStr '''', JBool False, JNum 0, JNull, JUndefined, JNaN} \<longrightarrow>
      event_payloads ''endGame'' (emitted a (snd (endGame x a))) = [JStr ''game_completed'']) \<and>
   (\<forall>d\<in>set (event_payloads ''endGame'' (emitted a (snd (endGame x a)))). js_truthy d) \<and>
   event_payloads ''endGame'' (emitted a (snd (endGame (JStr '''') a))) = [JStr ''game_completed'']"
  using endGame_payloads[of a x] endGame_payloads[of a "JStr ''''"] falsy_values[of x]
  by (auto simp: js_or_def)

theorem endGame_default_exit_type_witness:
  "JNum 0 \<in> {JStr '''', JBool False, JNum 0, JNull, JUndefined, JNaN} \<and>
   event_payloads ''endGame'' (emitted example_app (snd (endGame (JNum 0) example_app))) = [JStr ''game_completed''] \<and>
   event_payloads ''endGame'' (emitted example_app (snd (endGame (JStr ''left_site'') example_app))) = [JStr ''left_site'']"
  using endGame_default_exit_type[of example_app "JNum 0"]
    endGame_default_exit_type[of example_app "JStr ''left_site''"]
  by simp

text \<open>
  C8. \<open>setup\<close> puts the unload handler on both hooks of the window. When the browser
  calls a hook that holds it, \<open>endGame('left_site')\<close> runs on the application with both
  hooks already empty; afterwards both hooks are empty and \<open>endGame\<close> has been emitted
  once, with \<open>'left_site'\<close>; a hook that is empty does nothing. So whatever
  unload callbacks the browser makes, in whatever order and number, on an application
  with the handler on both hooks, \<open>endGame('left_site')\<close> is emitted exactly once (and
  not at all when the browser makes none).
\<close>

theorem unload_ends_game_once:
  "window_onunload (ContainerPlugin_setup m a0) = Some OnWindowUnload \<and>
   window_onbeforeunload (ContainerPlugin_setup m a0) = Some OnWindowUnload \<and>
   (hook_value k a = Some OnWindowUnload \<longrightarrow>
      fire_hook k a =
        endGame (JStr ''left_site'') (a\<lparr>window_onunload := None, window_onbeforeunload := None\<rparr>) \<and>
      window_onunload (snd (fire_hook k a)) = None \<and>
      window_onbeforeunload (snd (fire_hook k a)) = None \<and>
      event_payloads ''endGame'' (emitted a (snd (fire_hook k a))) = [JStr ''left_site'']) \<and>
   (hook_value k a = None \<longrightarrow> fire_hook k a = (Returned, a)) \<and>
   (window_onunload a = Some OnWindowUnload \<and> window_onbeforeunload a = Some OnWindowUnload \<longrightarrow>
      event_payloads ''endGame'' (emitted a (fire_hooks ks a)) =
        (if ks = [] then [] else [JStr ''left_site'']))"
proof -
  have inst: "window_onunload (ContainerPlugin_setup m a0) = Some OnWindowUnload \<and>
      window_onbeforeunload (ContainerPlugin_setup m a0) = Some OnWindowUnload"
    by (simp add: ContainerPlugin_setup_def Let_def)
  have one: "hook_value k a = Some OnWindowUnload \<longrightarrow>
      fire_hook k a =
        endGame (JStr ''left_site'') (a\<lparr>window_onunload := None, window_onbeforeunload := None\<rparr>) \<and>
      window_onunload (snd (fire_hook k a)) = None \<and>
      window_onbeforeunload (snd (fire_hook k a)) = None \<and>
      event_payloads ''endGame'' (emitted a (snd (fire_hook k a))) = [JStr ''left_site'']"
    using onWindowUnload_effect[of a] by (simp add: fire_hook_def onWindowUnload_def)
  have none: "hook_value k a = None \<longrightarrow> fire_hook k a = (Returned, a)"
    by (simp add: fire_hook_def)
  have many: "event_payloads ''endGame'' (emitted a (fire_hooks ks a)) =
        (if ks = [] then [] else [JStr ''left_site''])"
    if h: "window_onunload a = Some OnWindowUnload" "window_onbeforeunload a = Some OnWindowUnload"
  proof (cases ks)
    case Nil
    then show ?thesis by (simp add: emitted_def)
  next
    case (Cons k' ks')
    have f: "fire_hook k' a = onWindowUnload a"
      using h by (cases k') (simp_all add: fire_hook_def hook_value_def)
    have "fire_hooks ks' (snd (onWindowUnload a)) = snd (onWindowUnload a)"
      using onWindowUnload_effect[of a] by (simp add: fire_hooks_cleared)
    then show ?thesis
      using Cons f onWindowUnload_effect[of a] by simp
  qed
  from inst one none many show ?thesis by blast
qed

theorem unload_ends_game_once_witness:
  "window_onunload example_app = Some OnWindowUnload \<and>
   window_onbeforeunload example_app = Some OnWindowUnload \<and>
   hook_value Onbeforeunload example_app = Some OnWindowUnload \<and>
   emitted example_app (fire_hooks [Onbeforeunload, Onunload] example_app) =
     [Trigger ''endGame'' (JStr ''left_site''), LearningEndGame (JStr ''left_site''), Destroy] \<and>
   hook_value Onunload (snd (fire_hook Onbeforeunload example_app)) = None"
  using unload_ends_game_once[of "\<lparr>supported = True, inbound = []\<rparr>" new_app Onbeforeunload example_app "[Onbeforeunload, Onunload]"]
  by (simp add: example_app_def LearningPlugin_setup_def ContainerPlugin_setup_def new_app_def
      on_def once_def log_def Let_def fire_hook_def hook_value_def onWindowUnload_def endGame_def trigger_def
      and_then_def endGame_listener_def destroy_def emitted_def js_or_def)

section \<open>Messages from the container\<close>

text \<open>
  C6. After the handler of a \<open>pause\<close> message, \<open>paused\<close> is the boolean coercion of the
  message data and \<open>enabled\<close> is its negation, and nothing else has changed: \<open>true\<close>
  gives \<open>paused = true\<close>, \<open>enabled = false\<close>; \<open>false\<close> gives \<open>paused = false\<close>,
  \<open>enabled = true\<close>.
\<close>

theorem onPause_sets_paused_and_enabled:
  "onPause e a = a\<lparr>paused := js_truthy (data e), enabled := \<not> js_truthy (data e)\<rparr> \<and>
   paused (onPause e a) = js_truthy (data e) \<and>
   enabled (onPause e a) = (\<not> paused (onPause e a)) \<and>
   paused (onPause \<lparr>data = JBool True\<rparr> a) \<and> \<not> enabled (onPause \<lparr>data = JBool True\<rparr> a) \<and>
   \<not> paused (onPause \<lparr>data = JBool False\<rparr> a) \<and> enabled (onPause \<lparr>data = JBool False\<rparr> a)"
  by (simp add: onPause_def Let_def)

theorem onPause_sets_paused_and_enabled_witness:
  "paused (onPause \<lparr>data = JStr ''yes''\<rparr> new_app) \<and>
   \<not> enabled (onPause \<lparr>data = JStr ''yes''\<rparr> new_app) \<and>
   \<not> paused (onPause \<lparr>data = JNull\<rparr> (onPause \<lparr>data = JBool True\<rparr> new_app)) \<and>
   enabled (onPause \<lparr>data = JNull\<rparr> (onPause \<lparr>data = JBool True\<rparr> new_app))"
  using onPause_sets_paused_and_enabled[of "\<lparr>data = JStr ''yes''\<rparr>" new_app]
    onPause_sets_paused_and_enabled[of "\<lparr>data = JNull\<rparr>" "onPause \<lparr>data = JBool True\<rparr> new_app"]
  by simp

text \<open>
  C3. When \<open>playOptions\<close> is an object, the handler of a \<open>playOptions\<close> message merges
  the own properties of the payload (of \<open>{}\<close> for a falsy payload) into that same object:
  the field still refers to it, every key of the payload has the payload's value
  afterwards, every other key of the object keeps its value, and no other object and no
  other field changes. The keys of an object payload are its properties, those of a
  string payload the indices of its characters, and a boolean or a number has none.
  Merging \<open>{b: 2}\<close> into \<open>{a: 1}\<close> gives \<open>{a: 1, b: 2}\<close>; merging \<open>{a: 3}\<close> into
  \<open>{a: 1}\<close> gives \<open>{a: 3}\<close>.
\<close>

theorem onPlayOptions_shallow_merge:
  "playOptions a = JObj p \<and> p < length (heap a) \<longrightarrow>
     onPlayOptions e a =
       a\<lparr>heap := (heap a)[p := props_at (heap a) p ++ data_or_empty (heap a) (data e)]\<rparr> \<and>
     playOptions (onPlayOptions e a) = JObj p \<and>
     length (heap (onPlayOptions e a)) = length (heap a) \<and>
     (\<forall>k v. data_or_empty (heap a) (data e) k = Some v \<longrightarrow>
        props_at (heap (onPlayOptions e a)) p k = Some v) \<and>
     (\<forall>k. data_or_empty (heap a) (data e) k = None \<longrightarrow>
        props_at (heap (onPlayOptions e a)) p k = props_at (heap a) p k) \<and>
     (\<forall>q. q \<noteq> p \<longrightarrow> props_at (heap (onPlayOptions e a)) q = props_at (heap a) q) \<and>
     (\<forall>q. data e = JObj q \<longrightarrow> data_or_empty (heap a) (data e) = props_at (heap a) q) \<and>
     (\<forall>s. data e = JStr s \<longrightarrow> data_or_empty (heap a) (data e) = map_of (indexed_chars 0 s)) \<and>
     (\<forall>b n. data e = JBool b \<or> data e = JNum n \<longrightarrow> data_or_empty (heap a) (data e) = Map.empty) \<and>
     (\<not> js_truthy (data e) \<longrightarrow> onPlayOptions e a = a) \<and>
     (\<forall>q. data e = JObj q \<and> props_at (heap a) p = [''a'' \<mapsto> JNum 1] \<and>
          props_at (heap a) q = [''b'' \<mapsto> JNum 2] \<longrightarrow>
        props_at (heap (onPlayOptions e a)) p = [''a'' \<mapsto> JNum 1, ''b'' \<mapsto> JNum 2]) \<and>
     (\<forall>q. data e = JObj q \<and> props_at (heap a) p = [''a'' \<mapsto> JNum 1] \<and>
          props_at (heap a) q = [''a'' \<mapsto> JNum 3] \<longrightarrow>
        props_at (heap (onPlayOptions e a)) p = [''a'' \<mapsto> JNum 3])"
proof (intro impI)
  assume h: "playOptions a = JObj p \<and> p < length (heap a)"
  define src where "src = data_or_empty (heap a) (data e)"
  have eq: "onPlayOptions e a = a\<lparr>heap := (heap a)[p := props_at (heap a) p ++ src]\<rparr>"
    using h by (simp add: onPlayOptions_def Object_merge_def props_at_def src_def)
  have at_p: "props_at (heap (onPlayOptions e a)) p = props_at (heap a) p ++ src"
    using h by (simp add: eq props_at_def)
  have other: "\<forall>q. q \<noteq> p \<longrightarrow> props_at (heap (onPlayOptions e a)) q = props_at (heap a) q"
    by (simp add: eq props_at_def)
  have obj: "\<forall>q. data e = JObj q \<longrightarrow> src = props_at (heap a) q"
    by (simp add: src_def data_or_empty_def)
  have str: "\<forall>s. data e = JStr s \<longrightarrow> src = map_of (indexed_chars 0 s)"
    by (auto simp: src_def data_or_empty_def)
  have prim: "\<forall>b n. data e = JBool b \<or> data e = JNum n \<longrightarrow> src = Map.empty"
    by (auto simp: src_def data_or_empty_def)
  have falsy: "\<not> js_truthy (data e) \<longrightarrow> onPlayOptions e a = a"
    using h by (simp add: eq src_def data_or_empty_def props_at_def)
  have ex1: "\<forall>q. data e = JObj q \<and> props_at (heap a) p = [''a'' \<mapsto> JNum 1] \<and>
          props_at (heap a) q = [''b'' \<mapsto> JNum 2] \<longrightarrow>
        props_at (heap (onPlayOptions e a)) p = [''a'' \<mapsto> JNum 1, ''b'' \<mapsto> JNum 2]"
    using obj by (auto simp: at_p)
  have ex2: "\<forall>q. data e = JObj q \<and> props_at (heap a) p = [''a'' \<mapsto> JNum 1] \<and>
          props_at (heap a) q = [''a'' \<mapsto> JNum 3] \<longrightarrow>
        props_at (heap (onPlayOptions e a)) p = [''a'' \<mapsto> JNum 3]"
    using obj by (auto simp: at_p)
  have keys: "(\<forall>k v. src k = Some v \<longrightarrow> props_at (heap (onPlayOptions e a)) p k = Some v) \<and>
     (\<forall>k. src k = None \<longrightarrow> props_at (heap (onPlayOptions e a)) p k = props_at (heap a) p k)"
    by (simp add: at_p map_add_def)
  show "onPlayOptions e a =
       a\<lparr>heap := (heap a)[p := props_at (heap a) p ++ data_or_empty (heap a) (data e)]\<rparr> \<and>
     playOptions (onPlayOptions e a) = JObj p \<and>
     length (heap (onPlayOptions e a)) = length (heap a) \<and>
     (\<forall>k v. data_or_empty (heap a) (data e) k = Some v \<longrightarrow>
        props_at (heap (onPlayOptions e a)) p k = Some v) \<and>
     (\<forall>k. data_or_empty (heap a) (data e) k = None \<longrightarrow>
        props_at (heap (onPlayOptions e a)) p k = props_at (heap a) p k) \<and>
     (\<forall>q. q \<noteq> p \<longrightarrow> props_at (heap (onPlayOptions e a)) q = props_at (heap a) q) \<and>
     (\<forall>q. data e = JObj q \<longrightarrow> data_or_empty (heap a) (data e) = props_at (heap a) q) \<and>
     (\<forall>s. data e = JStr s \<longrightarrow> data_or_empty (heap a) (data e) = map_of (indexed_chars 0 s)) \<and>
     (\<forall>b n. data e = JBool b \<or> data e = JNum n \<longrightarrow> data_or_empty (heap a) (data e) = Map.empty) \<and>
     (\<not> js_truthy (data e) \<longrightarrow> onPlayOptions e a = a) \<and>
     (\<forall>q. data e = JObj q \<and> props_at (heap a) p = [''a'' \<mapsto> JNum 1] \<and>
          props_at (heap a) q = [''b'' \<mapsto> JNum 2] \<longrightarrow>
        props_at (heap (onPlayOptions e a)) p = [''a'' \<mapsto> JNum 1, ''b'' \<mapsto> JNum 2]) \<and>
     (\<forall>q. data e = JObj q \<and> props_at (heap a) p = [''a'' \<mapsto> JNum 1] \<and>
          props_at (heap a) q = [''a'' \<mapsto> JNum 3] \<longrightarrow>
        props_at (heap (onPlayOptions e a)) p = [''a'' \<mapsto> JNum 3])"
    using eq h other obj str prim falsy ex1 ex2 keys
    unfolding src_def by simp
qed

theorem onPlayOptions_shallow_merge_witness:
  "playOptions merge_app = JObj 0 \<and> 0 < length (heap merge_app) \<and>
   props_at (heap merge_app) 0 = [''a'' \<mapsto> JNum 1] \<and>
   props_at (heap merge_app) 1 = [''b'' \<mapsto> JNum 2] \<and>
   props_at (heap merge_app) 2 = [''a'' \<mapsto> JNum 3] \<and>
   playOptions (onPlayOptions \<lparr>data = JObj 1\<rparr> merge_app) = JObj 0 \<and>
   props_at (heap (onPlayOptions \<lparr>data = JObj 1\<rparr> merge_app)) 0 = [''a'' \<mapsto> JNum 1, ''b'' \<mapsto> JNum 2] \<and>
   props_at (heap (onPlayOptions \<lparr>data = JObj 2\<rparr> merge_app)) 0 = [''a'' \<mapsto> JNum 3] \<and>
   props_at (heap (onPlayOptions \<lparr>data = JObj 1\<rparr> merge_app)) 1 = [''b'' \<mapsto> JNum 2] \<and>
   props_at (heap (onPlayOptions \<lparr>data = JStr ''ab''\<rparr> merge_app)) 0 =
     [''a'' \<mapsto> JNum 1, ''1'' \<mapsto> JStr ''b'', ''0'' \<mapsto> JStr ''a'']"
  using onPlayOptions_shallow_merge[of merge_app 0 "\<lparr>data = JObj 1\<rparr>"]
    onPlayOptions_shallow_merge[of merge_app 0 "\<lparr>data = JObj 2\<rparr>"]
    onPlayOptions_shallow_merge[of merge_app 0 "\<lparr>data = JStr ''ab''\<rparr>"]
  by (simp add: merge_app_def new_app_def props_at_def digits_0 digits_1)

text \<open>
  C7, as the code has it. For a \<open>captionsStyles\<close> message whose payload is an object,
  when there is a caption text element (a text field with a \<open>nodeName\<close>) and each of the
  six fields converts to a string, the handler sets its class to
  \<open>size-<size> bg-<background> color-<color> edge-<edge> font-<font> align-<align>\<close>,
  each field as the string it converts to, single spaces between, in that order, and
  changes nothing else in the application; a string field converts to itself, and the
  spec's example gives \<open>size-lg bg-black color-white edge-none font-arial align-left\<close>.
  When a field does not convert (an object with an own \<open>toString\<close> property, and only
  that) the handler throws a \<open>TypeError\<close> and leaves the state as it was. Without a
  caption text element (no captions, no text field, or a text field that is no DOM
  element) the handler returns the state it was given.
\<close>

theorem onCaptionsStyles_className:
  "(caption_textField a = Some t \<and> js_truthy (nodeName t) \<and> data e = JObj q \<longrightarrow>
      (\<forall>s1 s2 s3 s4 s5 s6.
         js_toString (heap a) (field_value (heap a) q ''size'') = Inr s1 \<and>
         js_toString (heap a) (field_value (heap a) q ''background'') = Inr s2 \<and>
         js_toString (heap a) (field_value (heap a) q ''color'') = Inr s3 \<and>
         js_toString (heap a) (field_value (heap a) q ''edge'') = Inr s4 \<and>
         js_toString (heap a) (field_value (heap a) q ''font'') = Inr s5 \<and>
         js_toString (heap a) (field_value (heap a) q ''align'') = Inr s6 \<longrightarrow>
         fst (onCaptionsStyles e a) = Returned \<and>
         caption_textField (snd (onCaptionsStyles e a)) =
           Some (t\<lparr>className := JStr
             (''size-'' @ s1 @ '' bg-'' @ s2 @ '' color-'' @ s3 @ '' edge-'' @ s4 @
              '' font-'' @ s5 @ '' align-'' @ s6)\<rparr>) \<and>
         (\<exists>c. snd (onCaptionsStyles e a) = a\<lparr>captions := Some c\<rparr>)) \<and>
      (\<forall>v1 v2 v3 v4 v5 v6.
         props_at (heap a) q ''size'' = Some (JStr v1) \<and>
         props_at (heap a) q ''background'' = Some (JStr v2) \<and>
         props_at (heap a) q ''color'' = Some (JStr v3) \<and>
         props_at (heap a) q ''edge'' = Some (JStr v4) \<and>
         props_at (heap a) q ''font'' = Some (JStr v5) \<and>
         props_at (heap a) q ''align'' = Some (JStr v6) \<longrightarrow>
         fst (onCaptionsStyles e a) = Returned \<and>
         map_option className (caption_textField (snd (onCaptionsStyles e a))) =
           Some (JStr (''size-'' @ v1 @ '' bg-'' @ v2 @ '' color-'' @ v3 @ '' edge-'' @ v4 @
                       '' font-'' @ v5 @ '' align-'' @ v6))) \<and>
      ((\<exists>k\<in>set style_fields. js_toString (heap a) (field_value (heap a) q k) = Inl TypeError) \<longrightarrow>
         onCaptionsStyles e a = (Threw TypeError, a))) \<and>
   (js_toString h v = Inl TypeError) = (\<exists>p. v = JObj p \<and> props_at h p ''toString'' \<noteq> None) \<and>
   (caption_textField a = None \<longrightarrow> onCaptionsStyles e a = (Returned, a)) \<and>
   (caption_textField a = Some t \<and> \<not> js_truthy (nodeName t) \<longrightarrow> onCaptionsStyles e a = (Returned, a))"
proof -
  have none: "caption_textField a = None \<longrightarrow> onCaptionsStyles e a = (Returned, a)"
    by (auto simp: caption_textField_def onCaptionsStyles_def Let_def split: option.splits)
  have nodom: "caption_textField a = Some t \<and> \<not> js_truthy (nodeName t) \<longrightarrow>
      onCaptionsStyles e a = (Returned, a)"
    by (auto simp: caption_textField_def onCaptionsStyles_def Let_def split: option.splits)
  have conv: "fst (onCaptionsStyles e a) = Returned \<and>
         caption_textField (snd (onCaptionsStyles e a)) =
           Some (t\<lparr>className := JStr
             (''size-'' @ s1 @ '' bg-'' @ s2 @ '' color-'' @ s3 @ '' edge-'' @ s4 @
              '' font-'' @ s5 @ '' align-'' @ s6)\<rparr>) \<and>
         (\<exists>c. snd (onCaptionsStyles e a) = a\<lparr>captions := Some c\<rparr>)"
    if h: "caption_textField a = Some t" "js_truthy (nodeName t)" "data e = JObj q"
      and s: "js_toString (heap a) (field_value (heap a) q ''size'') = Inr s1"
        "js_toString (heap a) (field_value (heap a) q ''background'') = Inr s2"
        "js_toString (heap a) (field_value (heap a) q ''color'') = Inr s3"
        "js_toString (heap a) (field_value (heap a) q ''edge'') = Inr s4"
        "js_toString (heap a) (field_value (heap a) q ''font'') = Inr s5"
        "js_toString (heap a) (field_value (heap a) q ''align'') = Inr s6"
    for s1 s2 s3 s4 s5 s6
  proof -
    from h(1) obtain c where c: "captions a = Some c" "textField c = Some t"
      by (auto simp: caption_textField_def split: option.splits)
    define cls where "cls = ''size-'' @ s1 @ '' bg-'' @ s2 @ '' color-'' @ s3 @ '' edge-'' @ s4 @
              '' font-'' @ s5 @ '' align-'' @ s6"
    have eq: "onCaptionsStyles e a =
        (Returned, a\<lparr>captions := Some (c\<lparr>textField := Some (t\<lparr>className := JStr cls\<rparr>)\<rparr>)\<rparr>)"
      using c h(2,3) styles_className_converted[OF s]
      by (simp add: onCaptionsStyles_def Let_def cls_def)
    have "\<exists>c'. snd (onCaptionsStyles e a) = a\<lparr>captions := Some c'\<rparr>"
      unfolding eq by (rule exI[of _ "c\<lparr>textField := Some (t\<lparr>className := JStr cls\<rparr>)\<rparr>"]) simp
    then show ?thesis
      unfolding cls_def[symmetric] by (simp add: eq caption_textField_def)
  qed
  have strs: "fst (onCaptionsStyles e a) = Returned \<and>
         map_option className (caption_textField (snd (onCaptionsStyles e a))) =
           Some (JStr (''size-'' @ v1 @ '' bg-'' @ v2 @ '' color-'' @ v3 @ '' edge-'' @ v4 @
                       '' font-'' @ v5 @ '' align-'' @ v6))"
    if h: "caption_textField a = Some t" "js_truthy (nodeName t)" "data e = JObj q"
      and p: "props_at (heap a) q ''size'' = Some (JStr v1)"
         "props_at (heap a) q ''background'' = Some (JStr v2)"
         "props_at (heap a) q ''color'' = Some (JStr v3)"
         "props_at (heap a) q ''edge'' = Some (JStr v4)"
         "props_at (heap a) q ''font'' = Some (JStr v5)"
         "props_at (heap a) q ''align'' = Some (JStr v6)"
    for v1 v2 v3 v4 v5 v6
    using conv[OF h, of v1 v2 v3 v4 v5 v6] p by (simp add: field_value_def)
  have thr: "onCaptionsStyles e a = (Threw TypeError, a)"
    if h: "caption_textField a = Some t" "js_truthy (nodeName t)" "data e = JObj q"
      and k: "\<exists>k\<in>set style_fields. js_toString (heap a) (field_value (heap a) q k) = Inl TypeError"
  proof -
    from h(1) obtain c where c: "captions a = Some c" "textField c = Some t"
      by (auto simp: caption_textField_def split: option.splits)
    show ?thesis
      using c h(2,3) styles_className_throws[OF k]
      by (simp add: onCaptionsStyles_def Let_def)
  qed
  show ?thesis
    using none nodom conv strs thr js_toString_throws[of h v]
    by blast
qed

theorem onCaptionsStyles_className_witness:
  "caption_textField captions_app = Some \<lparr>nodeName = JStr ''DIV'', className = JStr ''''\<rparr> \<and>
   js_truthy (JStr ''DIV'') \<and>
   onCaptionsStyles \<lparr>data = JObj 0\<rparr> captions_app =
     (Returned,
      captions_app\<lparr>captions := Some \<lparr>c_muteAll = False, textField = Some
        \<lparr>nodeName = JStr ''DIV'',
         className = JStr ''size-lg bg-black color-white edge-none font-arial align-left''\<rparr>\<rparr>\<rparr>) \<and>
   caption_textField new_app = None \<and>
   onCaptionsStyles \<lparr>data = JObj 0\<rparr> new_app = (Returned, new_app) \<and>
   js_toString (heap unprintable_styles_app) (field_value (heap unprintable_styles_app) 0 ''size'') = Inl TypeError \<and>
   onCaptionsStyles \<lparr>data = JObj 0\<rparr> unprintable_styles_app = (Threw TypeError, unprintable_styles_app)"
  using onCaptionsStyles_className[of captions_app "\<lparr>nodeName = JStr ''DIV'', className = JStr ''''\<rparr>" "\<lparr>data = JObj 0\<rparr>" 0]
    onCaptionsStyles_className[of new_app "\<lparr>nodeName = JStr ''DIV'', className = JStr ''''\<rparr>" "\<lparr>data = JObj 0\<rparr>" 0]
    onCaptionsStyles_className[of unprintable_styles_app "\<lparr>nodeName = JStr ''DIV'', className = JStr ''''\<rparr>" "\<lparr>data = JObj 0\<rparr>" 0]
  by (simp add: unprintable_styles_app_def captions_app_def new_app_def caption_textField_def props_at_def field_value_def
      onCaptionsStyles_def styles_className_def bind_sum_def style_fields_def)

text \<open>
  C7 as stated, for every payload with the six fields, fails on the payload whose
  \<open>size\<close> is the object \<open>{toString: 1}\<close>: there is a caption text element, the handler
  throws, and the class is what it was.
\<close>

theorem onCaptionsStyles_unprintable_field_counterexample:
  "caption_textField unprintable_styles_app = Some \<lparr>nodeName = JStr ''DIV'', className = JStr ''''\<rparr> \<and>
   map (props_at (heap unprintable_styles_app) 0) style_fields =
     [Some (JObj 1), Some (JStr ''black''), Some (JStr ''white''), Some (JStr ''none''),
      Some (JStr ''arial''), Some (JStr ''left'')] \<and>
   props_at (heap unprintable_styles_app) 1 = [''toString'' \<mapsto> JNum 1] \<and>
   fst (onCaptionsStyles \<lparr>data = JObj 0\<rparr> unprintable_styles_app) = Threw TypeError \<and>
   map_option className (caption_textField (snd (onCaptionsStyles \<lparr>data = JObj 0\<rparr> unprintable_styles_app))) =
     Some (JStr '''')"
  by (simp add: unprintable_styles_app_def captions_app_def new_app_def caption_textField_def props_at_def field_value_def
      onCaptionsStyles_def styles_className_def bind_sum_def style_fields_def)

section \<open>Preload\<close>

text \<open>
  C9, as the code has it. After \<open>preload\<close> (also when it throws for want of a messenger)
  \<open>playOptions\<close> is never \<open>null\<close> nor any other falsy value: a falsy resolved option,
  \<open>null\<close> included, is replaced by a new empty object, and a truthy one is taken as it
  is. The field is therefore an object of the heap when the option was falsy or an
  object; a truthy option that is no object stays what it is.
\<close>

theorem preload_playOptions_never_null:
  "js_truthy (playOptions (snd (ContainerPlugin_preload a))) \<and>
   playOptions (snd (ContainerPlugin_preload a)) \<noteq> JNull \<and>
   (js_truthy (option_value a ''playOptions'') \<longrightarrow>
      playOptions (snd (ContainerPlugin_preload a)) = option_value a ''playOptions'') \<and>
   (\<not> js_truthy (option_value a ''playOptions'') \<longrightarrow>
      playOptions (snd (ContainerPlugin_preload a)) = JObj (length (heap a)) \<and>
      props_at (heap (snd (ContainerPlugin_preload a))) (length (heap a)) = Map.empty \<and>
      is_object (heap (snd (ContainerPlugin_preload a))) (playOptions (snd (ContainerPlugin_preload a)))) \<and>
   (is_object (heap a) (option_value a ''playOptions'') \<longrightarrow>
      is_object (heap (snd (ContainerPlugin_preload a))) (playOptions (snd (ContainerPlugin_preload a))))"
proof -
  obtain rest where h: "heap (snd (ContainerPlugin_preload a)) =
     (if js_truthy (option_value a ''playOptions'') then heap a else heap a @ [Map.empty]) @ rest"
    using preload_heap[of a] by blast
  show ?thesis
    using preload_playOptions[of a] h
    by (auto simp: is_object_def props_at_def nth_append split: jsval.splits)
qed

theorem preload_playOptions_never_null_witness:
  "\<not> js_truthy (option_value example_app ''playOptions'') \<and>
   playOptions (snd (ContainerPlugin_preload example_app)) = JObj 0 \<and>
   props_at (heap (snd (ContainerPlugin_preload example_app))) 0 = Map.empty \<and>
   js_truthy (option_value string_option_app ''playOptions'') \<and>
   playOptions (snd (ContainerPlugin_preload string_option_app)) = JStr ''square''"
  using preload_playOptions_never_null[of example_app] preload_playOptions_never_null[of string_option_app]
  by (simp add: string_option_app_def example_app_def LearningPlugin_setup_def ContainerPlugin_setup_def new_app_def
      on_def once_def log_def Let_def option_value_def)

text \<open>
  C9 as stated, "\<open>playOptions\<close> is always a non-null object", fails for the resolved
  option \<open>'square'\<close>: \<open>'square' || {}\<close> is the string.
\<close>

theorem preload_playOptions_object_counterexample:
  "playOptions (snd (ContainerPlugin_preload string_option_app)) = JStr ''square'' \<and>
   \<not> is_object (heap (snd (ContainerPlugin_preload string_option_app)))
       (playOptions (snd (ContainerPlugin_preload string_option_app)))"
  by (simp add: preload_playOptions is_object_def string_option_app_def option_value_def)

text \<open>
  C2, as the code has it. With a messenger that is not supported, \<open>preload\<close> wires
  nothing: it registers no inbound handler, hands nothing to \<open>messenger.send\<close> (no
  \<open>features\<close>), creates no visibility watcher (the only sender of \<open>focus\<close>), leaves
  \<open>autoPause\<close> and the listeners as they were, and calls \<open>done\<close>. The three listeners
  that \<open>setup\<close> subscribes, whatever \<open>supported\<close> is, do not look at \<open>supported\<close>: with
  a messenger there, each hands its message (\<open>learningEvent\<close>, \<open>analyticEvent\<close>,
  \<open>loadDone\<close>) to \<open>messenger.send\<close>.
\<close>

theorem preload_unsupported_wires_nothing:
  "(messenger a = Some m \<and> \<not> supported m \<longrightarrow>
      fst (ContainerPlugin_preload a) = Returned \<and>
      messenger (snd (ContainerPlugin_preload a)) = Some m \<and>
      emitted a (snd (ContainerPlugin_preload a)) = [Done] \<and>
      sent_names (emitted a (snd (ContainerPlugin_preload a))) = [] \<and>
      pageVisibility (snd (ContainerPlugin_preload a)) = pageVisibility a \<and>
      autoPause (snd (ContainerPlugin_preload a)) = autoPause a \<and>
      listeners (snd (ContainerPlugin_preload a)) = listeners a) \<and>
   listeners (ContainerPlugin_setup m a0) =
     listeners a0 @
       [\<lparr>l_event = ''learningEvent'', l_once = False, l_handler = LearningEventListener\<rparr>,
        \<lparr>l_event = ''analyticEvent'', l_once = False, l_handler = AnalyticEventListener\<rparr>,
        \<lparr>l_event = ''loaded'', l_once = True, l_handler = LoadedListener\<rparr>] \<and>
   (messenger a = Some m \<longrightarrow>
      call_handler LearningEventListener d a = (Returned, log (Send ''learningEvent'' [d]) a) \<and>
      call_handler AnalyticEventListener d a = (Returned, log (Send ''analyticEvent'' [d]) a) \<and>
      call_handler LoadedListener d a = (Returned, log (Send ''loadDone'' []) a))"
proof -
  have pre: "fst (ContainerPlugin_preload a) = Returned \<and>
      messenger (snd (ContainerPlugin_preload a)) = Some m \<and>
      emitted a (snd (ContainerPlugin_preload a)) = [Done] \<and>
      sent_names (emitted a (snd (ContainerPlugin_preload a))) = [] \<and>
      pageVisibility (snd (ContainerPlugin_preload a)) = pageVisibility a \<and>
      autoPause (snd (ContainerPlugin_preload a)) = autoPause a \<and>
      listeners (snd (ContainerPlugin_preload a)) = listeners a"
    if "messenger a = Some m" "\<not> supported m"
    using that
    by (simp add: ContainerPlugin_preload_def Let_def new_object_def log_def emitted_def)
  have sub: "listeners (ContainerPlugin_setup m a0) =
     listeners a0 @
       [\<lparr>l_event = ''learningEvent'', l_once = False, l_handler = LearningEventListener\<rparr>,
        \<lparr>l_event = ''analyticEvent'', l_once = False, l_handler = AnalyticEventListener\<rparr>,
        \<lparr>l_event = ''loaded'', l_once = True, l_handler = LoadedListener\<rparr>]"
    by (simp add: ContainerPlugin_setup_def Let_def on_def once_def log_def)
  have fwd: "call_handler LearningEventListener d a = (Returned, log (Send ''learningEvent'' [d]) a) \<and>
      call_handler AnalyticEventListener d a = (Returned, log (Send ''analyticEvent'' [d]) a) \<and>
      call_handler LoadedListener d a = (Returned, log (Send ''loadDone'' []) a)"
    if "messenger a = Some m"
    using that
    by (simp add: learningEvent_listener_def analyticEvent_listener_def loaded_listener_def
        messenger_send_def)
  from pre sub fwd show ?thesis by blast
qed

theorem preload_unsupported_wires_nothing_witness:
  "messenger standalone_app = Some \<lparr>supported = False, inbound = []\<rparr> \<and>
   \<not> supported \<lparr>supported = False, inbound = []\<rparr> \<and>
   ContainerPlugin_preload standalone_app =
     (Returned, (log Done standalone_app)\<lparr>heap := heap standalone_app @ [Map.empty], playOptions := JObj 1\<rparr>) \<and>
   call_handler LoadedListener JUndefined standalone_app =
     (Returned, log (Send ''loadDone'' []) standalone_app)"
  using preload_unsupported_wires_nothing[of standalone_app "\<lparr>supported = False, inbound = []\<rparr>" new_app JUndefined]
  by (simp add: standalone_app_def ContainerPlugin_preload_def LearningPlugin_setup_def
      ContainerPlugin_setup_def new_app_def on_def once_def log_def Let_def option_value_def
      new_object_def)

text \<open>
  C2 as stated, "no message (\<open>learningEvent\<close>, \<open>analyticEvent\<close>, \<open>loadDone\<close>) is sent",
  fails on the application set up and preloaded outside a container: emitting \<open>loaded\<close>,
  \<open>learningEvent\<close> or \<open>analyticEvent\<close> there hands the message to \<open>messenger.send\<close>.
\<close>

theorem unsupported_messenger_still_sent_to_counterexample:
  "map_option supported (messenger standalone_app) = Some False \<and>
   sent_names (emitted standalone_app (snd (trigger ''loaded'' JUndefined standalone_app))) = [''loadDone''] \<and>
   sent_names (emitted standalone_app (snd (trigger ''learningEvent'' JNull standalone_app))) = [''learningEvent''] \<and>
   sent_names (emitted standalone_app (snd (trigger ''analyticEvent'' JNull standalone_app))) = [''analyticEvent'']"
  by (simp add: standalone_app_def ContainerPlugin_preload_def LearningPlugin_setup_def
      ContainerPlugin_setup_def new_app_def on_def once_def log_def Let_def option_value_def
      new_object_def trigger_def and_then_def emitted_def
      learningEvent_listener_def analyticEvent_listener_def loaded_listener_def messenger_send_def)

section \<open>Single-shot subscriptions\<close>

text \<open>
  C4. On an application that had no listener for \<open>loaded\<close> or \<open>configLoaded\<close> before
  the two plugins were set up: the first \<open>loaded\<close> hands \<open>loadDone\<close> to the messenger
  and the second hands it nothing; the first \<open>configLoaded\<close> installs the dictionary
  (\<open>specDictionary\<close> or \<open>null\<close>) and the spec of its configuration on the dispatcher
  exactly when that configuration has a truthy \<open>spec\<close>, and otherwise installs nothing;
  the second \<open>configLoaded\<close> installs nothing and leaves the dispatcher as it was,
  whatever its configuration. After its first emission neither event has a listener left.
\<close>

theorem single_shot_listeners_fire_once:
  fixes a0 :: app and m :: messenger and l :: learning and d1 d2 c1 c2 :: jsval
  defines "s \<equiv> LearningPlugin_setup l (ContainerPlugin_setup m a0)"
  defines "loaded1 \<equiv> snd (trigger ''loaded'' d1 s)"
  defines "loaded2 \<equiv> snd (trigger ''loaded'' d2 loaded1)"
  defines "config1 \<equiv> snd (trigger ''configLoaded'' c1 s)"
  defines "config2 \<equiv> snd (trigger ''configLoaded'' c2 config1)"
  assumes fresh: "\<forall>x\<in>set (listeners a0). l_event x \<noteq> ''loaded'' \<and> l_event x \<noteq> ''configLoaded''"
  shows "emitted s loaded1 = [Trigger ''loaded'' d1, Send ''loadDone'' []] \<and>
         emitted loaded1 loaded2 = [Trigger ''loaded'' d2] \<and>
         (\<forall>x\<in>set (listeners loaded1). l_event x \<noteq> ''loaded'') \<and>
         (\<forall>q. c1 = JObj q \<and> js_truthy (field_value (heap a0) q ''spec'') \<longrightarrow>
            emitted s config1 =
              [Trigger ''configLoaded'' c1,
               AddMap (js_or (field_value (heap a0) q ''specDictionary'') JNull)] \<and>
            learning config1 = Some (l\<lparr>spec := field_value (heap a0) q ''spec''\<rparr>)) \<and>
         (\<not> (\<exists>q. c1 = JObj q \<and> js_truthy (field_value (heap a0) q ''spec'')) \<longrightarrow>
            emitted s config1 = [Trigger ''configLoaded'' c1] \<and> learning config1 = Some l) \<and>
         emitted config1 config2 = [Trigger ''configLoaded'' c2] \<and>
         learning config2 = learning config1 \<and>
         (\<forall>x\<in>set (listeners config1). l_event x \<noteq> ''configLoaded'')"
proof -
  define L0 where "L0 = listeners a0"
  have f1: "filter (\<lambda>x. l_event x = ''loaded'') L0 = []"
    and f2: "filter (\<lambda>x. l_event x = ''configLoaded'') L0 = []"
    using fresh by (auto simp: L0_def filter_empty_conv)
  have n1: "\<lparr>l_event = ''loaded'', l_once = True, l_handler = LoadedListener\<rparr> \<notin> set L0"
    and n2: "\<lparr>l_event = ''configLoaded'', l_once = True, l_handler = ConfigLoadedListener\<rparr> \<notin> set L0"
    using fresh by (auto simp: L0_def)
  have s_fields: "listeners s = L0 @
       [\<lparr>l_event = ''learningEvent'', l_once = False, l_handler = LearningEventListener\<rparr>,
        \<lparr>l_event = ''analyticEvent'', l_once = False, l_handler = AnalyticEventListener\<rparr>,
        \<lparr>l_event = ''loaded'', l_once = True, l_handler = LoadedListener\<rparr>,
        \<lparr>l_event = ''configLoaded'', l_once = True, l_handler = ConfigLoadedListener\<rparr>,
        \<lparr>l_event = ''endGame'', l_once = True, l_handler = EndGameListener\<rparr>,
        \<lparr>l_event = ''init'', l_once = True, l_handler = InitListener\<rparr>]"
    "messenger s = Some m" "learning s = Some l" "heap s = heap a0"
    by (simp_all add: s_def LearningPlugin_setup_def ContainerPlugin_setup_def Let_def on_def
        once_def log_def L0_def)
  have l1: "loaded1 = (log (Send ''loadDone'' []) (log (Trigger ''loaded'' d1) s))
      \<lparr>listeners := L0 @
       [\<lparr>l_event = ''learningEvent'', l_once = False, l_handler = LearningEventListener\<rparr>,
        \<lparr>l_event = ''analyticEvent'', l_once = False, l_handler = AnalyticEventListener\<rparr>,
        \<lparr>l_event = ''configLoaded'', l_once = True, l_handler = ConfigLoadedListener\<rparr>,
        \<lparr>l_event = ''endGame'', l_once = True, l_handler = EndGameListener\<rparr>,
        \<lparr>l_event = ''init'', l_once = True, l_handler = InitListener\<rparr>]\<rparr>"
    using f1 n1
    by (simp add: loaded1_def trigger_def s_fields and_then_def loaded_listener_def
        messenger_send_def log_def remove1_not_in_prefix)
  have l2: "loaded2 = log (Trigger ''loaded'' d2) loaded1"
    using f1 by (simp add: loaded2_def trigger_def l1 log_def)
  define s' where "s' = (log (Trigger ''configLoaded'' c1) s)
      \<lparr>listeners := L0 @
       [\<lparr>l_event = ''learningEvent'', l_once = False, l_handler = LearningEventListener\<rparr>,
        \<lparr>l_event = ''analyticEvent'', l_once = False, l_handler = AnalyticEventListener\<rparr>,
        \<lparr>l_event = ''loaded'', l_once = True, l_handler = LoadedListener\<rparr>,
        \<lparr>l_event = ''endGame'', l_once = True, l_handler = EndGameListener\<rparr>,
        \<lparr>l_event = ''init'', l_once = True, l_handler = InitListener\<rparr>]\<rparr>"
  have s'_fields: "heap s' = heap a0" "learning s' = Some l"
    "trace s' = trace s @ [Trigger ''configLoaded'' c1]"
    "filter (\<lambda>x. l_event x = ''configLoaded'') (listeners s') = []"
    using f2 by (simp_all add: s'_def log_def s_fields)
  have c1eq: "config1 = snd (configLoaded_listener c1 s')"
    using f2 n2
    by (cases "configLoaded_listener c1 s'" rule: prod.exhaust; cases "fst (configLoaded_listener c1 s')")
       (simp_all add: config1_def trigger_def s_fields and_then_def s'_def log_def
         remove1_not_in_prefix)
  have frame: "heap (snd (configLoaded_listener c1 s')) = heap s' \<and>
      listeners (snd (configLoaded_listener c1 s')) = listeners s'"
    using call_handler_frame(4,7)[of ConfigLoadedListener c1 s'
        "fst (configLoaded_listener c1 s')" "snd (configLoaded_listener c1 s')"]
    by simp
  have A: "emitted s config1 =
              [Trigger ''configLoaded'' c1,
               AddMap (js_or (field_value (heap a0) q ''specDictionary'') JNull)] \<and>
            learning config1 = Some (l\<lparr>spec := field_value (heap a0) q ''spec''\<rparr>)"
    if "c1 = JObj q" "js_truthy (field_value (heap a0) q ''spec'')" for q
    using that
    by (simp add: c1eq configLoaded_listener_def s'_fields field_value_def log_def emitted_def)
  have B: "emitted s config1 = [Trigger ''configLoaded'' c1] \<and> learning config1 = Some l"
    if "\<not> (\<exists>q. c1 = JObj q \<and> js_truthy (field_value (heap a0) q ''spec''))"
    using that
    by (cases c1)
       (simp_all add: c1eq configLoaded_listener_def s'_fields field_value_def log_def emitted_def)
  have c2eq: "config2 = log (Trigger ''configLoaded'' c2) config1"
    using frame s'_fields(4)
    by (simp add: config2_def trigger_def c1eq)
  have "\<forall>x\<in>set (listeners config1). l_event x \<noteq> ''configLoaded''"
    using frame s'_fields(4) by (simp add: c1eq filter_empty_conv)
  moreover have "\<forall>x\<in>set (listeners loaded1). l_event x \<noteq> ''loaded''"
    using fresh by (auto simp: l1 log_def L0_def)
  moreover have "emitted s loaded1 = [Trigger ''loaded'' d1, Send ''loadDone'' []]"
    by (simp add: l1 log_def emitted_def)
  moreover have "emitted loaded1 loaded2 = [Trigger ''loaded'' d2]"
    by (simp add: l2 log_def emitted_def)
  moreover have "emitted config1 config2 = [Trigger ''configLoaded'' c2]"
    "learning config2 = learning config1"
    by (simp_all add: c2eq log_def emitted_def)
  ultimately show ?thesis
    using A B by blast
qed

theorem single_shot_listeners_fire_once_witness:
  "listeners unconfigured_app = [] \<and>
   emitted config_app (snd (trigger ''configLoaded'' (JObj 0) config_app)) =
     [Trigger ''configLoaded'' (JObj 0), AddMap (JObj 2)] \<and>
   map_option spec (learning (snd (trigger ''configLoaded'' (JObj 0) config_app))) = Some (JStr ''first'') \<and>
   map_option spec (learning (snd (trigger ''configLoaded'' (JObj 1)
      (snd (trigger ''configLoaded'' (JObj 0) config_app))))) = Some (JStr ''first'') \<and>
   emitted (snd (trigger ''configLoaded'' (JObj 0) config_app))
     (snd (trigger ''configLoaded'' (JObj 1) (snd (trigger ''configLoaded'' (JObj 0) config_app)))) =
     [Trigger ''configLoaded'' (JObj 1)] \<and>
   emitted config_app (snd (trigger ''loaded'' JUndefined config_app)) =
     [Trigger ''loaded'' JUndefined, Send ''loadDone'' []] \<and>
   emitted (snd (trigger ''loaded'' JUndefined config_app))
     (snd (trigger ''loaded'' JUndefined (snd (trigger ''loaded'' JUndefined config_app)))) =
     [Trigger ''loaded'' JUndefined]"
proof -
  have u: "listeners unconfigured_app = []" "heap unconfigured_app =
      [[''spec'' \<mapsto> JStr ''first'', ''specDictionary'' \<mapsto> JObj 2],
       [''spec'' \<mapsto> JStr ''second''], Map.empty]"
    by (simp_all add: unconfigured_app_def new_app_def)
  show ?thesis
    using single_shot_listeners_fire_once[of unconfigured_app "\<lparr>spec = JUndefined\<rparr>"
      "\<lparr>supported = True, inbound = []\<rparr>" JUndefined JUndefined "JObj 0" "JObj 1"]
    by (simp add: u config_app_def field_value_def props_at_def js_or_def)
qed

end
